theory Spec2Isabelle
  imports Main "HOL-Library.Multiset"
begin

section \<open>Deployment script of the travel concierge agent (deployment/deploy.py)\<close>

text \<open>
  The script is straight-line glue over a cloud SDK. Its observable behaviour is the
  sequence of things it does (prints, SDK calls, local file operations) and how it ends
  (a value, an exception, an exit code). The model records the first as a list of events
  and the second as a sum type.

  Strings are lists of bytes (UTF-8): the emoji that start most of the script's messages
  are written out as their bytes. Splitting on \<open>/\<close> is the same on bytes and on code
  points, since the byte of \<open>/\<close> occurs in no multi-byte sequence.
\<close>

subsection \<open>Exceptions\<close>

text \<open>
  Values of \<open>exn\<close> are instances of Python's \<open>Exception\<close>, which is what the three
  \<open>except Exception as e\<close> handlers of the script name: \<open>IndexError\<close> from indexing a
  list out of range, \<open>ValueError\<close> from \<open>Path.relative_to\<close> or from the constructor of a
  message object, and \<open>SdkError\<close> for whatever else a call into the cloud SDK raises. \<open>exn_str\<close> is \<open>str(e)\<close>, as the handlers print it.
\<close>

datatype exn = IndexError | ValueError string | SdkError string

fun exn_str :: "exn \<Rightarrow> string" where
  "exn_str IndexError = ''list index out of range''"
| "exn_str (ValueError m) = m"
| "exn_str (SdkError m) = m"

subsection \<open>Paths and credentials\<close>

text \<open>A path is the list of its components; \<open>path_str\<close> joins them with \<open>/\<close>.\<close>

type_synonym path = "string list"

fun path_str :: "path \<Rightarrow> string" where
  "path_str [] = ''''"
| "path_str [c] = c"
| "path_str (c # cs) = c @ ''/'' @ path_str cs"

text \<open>
  What \<open>get_credentials\<close> returns: credentials loaded from a service account file, or
  \<open>None\<close>, with which the storage client falls back to the platform's Application Default
  Credentials.
\<close>

datatype credentials = ServiceAccountFile string | ApplicationDefault

subsection \<open>Events\<close>

text \<open>
  One event per observable step. \<open>Print\<close> is a call of \<open>print\<close> with the line it writes,
  \<open>PrintHelp\<close> is \<open>parser.print_help()\<close>. The local file operations are the creation
  of the temporary file, one \<open>zipf.write(file, arcname)\<close> per archive entry, and
  \<open>os.unlink\<close>. The others are calls into the cloud SDK:
  \<open>aiplatform.init\<close>, the storage upload, the construction of the
  \<open>ReasoningEngineServiceClient\<close>, the construction of the two message objects
  (\<open>aip.QueryReasoningEngineRequest(...)\<close> with the resource id and the query, and
  \<open>aip.ReasoningEngine(**agent_config)\<close> with the display name and the package URI),
  \<open>create_reasoning_engine\<close>, \<open>operation.result()\<close>, \<open>query_reasoning_engine\<close> and
  \<open>delete_reasoning_engine\<close>.

  The calls into the SDK, the two constructors of message objects among them, are the
  ones that may raise, as the environment decides. Printing, the local file operations
  and reading an attribute of an object that a call returned (\<open>reasoning_engine.operation\<close>,
  \<open>operation.metadata.name\<close>) are taken to return.
\<close>

datatype event =
    Print string
  | PrintHelp
  | TempFileCreate string
  | ZipWrite path path
  | Unlink string
  | AiplatformInit string string
  | Upload credentials string string string
  | ClientCreate
  | BuildReasoningEngine string string
  | CreateRequest string string string
  | OperationWait
  | BuildQueryRequest string string
  | QueryRequest string string
  | DeleteRequest string

fun is_remote_call :: "event \<Rightarrow> bool" where
  "is_remote_call (Print _) = False"
| "is_remote_call PrintHelp = False"
| "is_remote_call (TempFileCreate _) = False"
| "is_remote_call (ZipWrite _ _) = False"
| "is_remote_call (Unlink _) = False"
| "is_remote_call (BuildReasoningEngine _ _) = False"
| "is_remote_call (BuildQueryRequest _ _) = False"
| "is_remote_call _ = True"

fun is_create_request :: "event \<Rightarrow> bool" where
  "is_create_request (CreateRequest _ _ _) = True"
| "is_create_request _ = False"

subsection \<open>Runs: a trace and a result or an exception\<close>

text \<open>
  A run of a piece of the script is the events it produced and either the value it
  returned (\<open>Inr\<close>) or the exception that left it (\<open>Inl\<close>). \<open>seq\<close> is sequential
  composition: an exception of the first part skips the second. \<open>sdk_call\<close> is a call
  whose outcome the environment decides: the event is recorded, then the call raises or
  returns. \<open>try_except\<close> is \<open>try: ... except Exception as e: ...\<close>.
\<close>

type_synonym 'a run = "event list \<times> (exn + 'a)"

definition ret :: "'a \<Rightarrow> 'a run" where
  "ret x = ([], Inr x)"

definition raise_exn :: "exn \<Rightarrow> 'a run" where
  "raise_exn e = ([], Inl e)"

definition emit :: "event \<Rightarrow> unit run" where
  "emit ev = ([ev], Inr ())"

definition sdk_call :: "event \<Rightarrow> exn option \<Rightarrow> unit run" where
  "sdk_call ev outcome = ([ev], case outcome of None \<Rightarrow> Inr () | Some e \<Rightarrow> Inl e)"

definition seq :: "'a run \<Rightarrow> ('a \<Rightarrow> 'b run) \<Rightarrow> 'b run" where
  "seq m f =
     (case m of
        (t, Inl e) \<Rightarrow> (t, Inl e)
      | (t, Inr x) \<Rightarrow> (case f x of (t', r) \<Rightarrow> (t @ t', r)))"

definition try_except :: "'a run \<Rightarrow> (exn \<Rightarrow> 'a run) \<Rightarrow> 'a run" where
  "try_except m h =
     (case m of
        (t, Inl e) \<Rightarrow> (case h e of (t', r) \<Rightarrow> (t @ t', r))
      | (t, Inr x) \<Rightarrow> (t, Inr x))"

subsection \<open>The messages\<close>

definition cross_mark :: string where
  "cross_mark = [CHR 0xE2, CHR 0x9D, CHR 0x8C]"

definition check_mark :: string where
  "check_mark = [CHR 0xE2, CHR 0x9C, CHR 0x85]"

definition hourglass :: string where
  "hourglass = [CHR 0xE2, CHR 0x8F, CHR 0xB3]"

definition package_sign :: string where
  "package_sign = [CHR 0xF0, CHR 0x9F, CHR 0x93, CHR 0xA6]"

definition rocket :: string where
  "rocket = [CHR 0xF0, CHR 0x9F, CHR 0x9A, CHR 0x80]"

definition clipboard :: string where
  "clipboard = [CHR 0xF0, CHR 0x9F, CHR 0x93, CHR 0x8B]"

definition test_tube :: string where
  "test_tube = [CHR 0xF0, CHR 0x9F, CHR 0xA7, CHR 0xAA]"

definition memo :: string where
  "memo = [CHR 0xF0, CHR 0x9F, CHR 0x93, CHR 0x9D]"

definition magnifier :: string where
  "magnifier = [CHR 0xF0, CHR 0x9F, CHR 0x94, CHR 0x8D]"

definition wastebasket :: string where
  "wastebasket = [CHR 0xF0, CHR 0x9F, CHR 0x97, CHR 0x91, CHR 0xEF, CHR 0xB8, CHR 0x8F]"

definition wrench :: string where
  "wrench = [CHR 0xF0, CHR 0x9F, CHR 0x94, CHR 0xA7]"

definition party_popper :: string where
  "party_popper = [CHR 0xF0, CHR 0x9F, CHR 0x8E, CHR 0x89]"

subsection \<open>The environment of a run\<close>

text \<open>
  A chunk of the query response: \<open>chunk.content\<close> is a string, falsy when empty;
  \<open>chunk.metadata\<close> is \<open>None\<close> when falsy and otherwise carries the text that
  formatting it gives.
\<close>

record chunk =
  chunk_content :: string
  chunk_metadata :: "string option"

text \<open>
  The directory tree below the repository root (\<open>Path(__file__).parent.parent\<close>): a
  regular file with its name, or a directory with its name and its entries, in the order
  in which the directory lists them. Looking a name up takes the first entry of that name.
\<close>

datatype fsnode = FileN string | DirN string "fsnode list"

text \<open>
  Everything the script reads from outside: the process environment is a separate map
  (\<open>os.getenv\<close>); the rest is this record. Each SDK call has its outcome here:
  \<open>None\<close> when it returns, \<open>Some e\<close> when it raises \<open>e\<close> (\<open>w_engine\<close> and
  \<open>w_query_request\<close> are the two constructors of message objects). The response of the query is
  a lazy, finite stream: the chunks it yields, and the exception that the iteration raises
  after them, if any. \<open>w_resource_name\<close> is \<open>operation.metadata.name\<close>.
\<close>

record world =
  w_root_dir :: path
  w_root_entries :: "fsnode list"
  w_path_exists :: "string \<Rightarrow> bool"
  w_time :: nat
  w_tmp_name :: string
  w_init :: "exn option"
  w_upload :: "exn option"
  w_client :: "exn option"
  w_engine :: "exn option"
  w_create :: "exn option"
  w_wait :: "exn option"
  w_resource_name :: string
  w_query_request :: "exn option"
  w_query :: "exn option"
  w_chunks :: "chunk list"
  w_iter_error :: "exn option"
  w_delete :: "exn option"
  w_delete_wait :: "exn option"

type_synonym env = "string \<Rightarrow> string option"

subsection \<open>Python primitives the script uses\<close>

text \<open>\<open>s.split(c)\<close> for a one-character separator: never empty, \<open>''''.split(c) = ['''']\<close>.\<close>

fun split_on :: "char \<Rightarrow> string \<Rightarrow> string list" where
  "split_on c [] = [[]]"
| "split_on c (x # xs) =
     (if x = c then [] # split_on c xs
      else (case split_on c xs of
              [] \<Rightarrow> [[x]]
            | p # ps \<Rightarrow> (x # p) # ps))"

text \<open>\<open>xs[i]\<close> for a constant \<open>i \<ge> 0\<close>: raises \<open>IndexError\<close> out of range.\<close>

definition py_index :: "'a list \<Rightarrow> nat \<Rightarrow> 'a run" where
  "py_index xs i = (if i < length xs then ret (xs ! i) else raise_exn IndexError)"

text \<open>Truthiness of an optional string: \<open>None\<close> and \<open>''''\<close> are falsy.\<close>

fun truthy :: "string option \<Rightarrow> bool" where
  "truthy None = False"
| "truthy (Some s) = (s \<noteq> [])"

text \<open>\<open>a or b\<close> on optional strings.\<close>

definition py_or :: "string option \<Rightarrow> string option \<Rightarrow> string option" where
  "py_or a b = (if truthy a then a else b)"

text \<open>\<open>os.getenv(k, d)\<close>.\<close>

definition getenv_default :: "env \<Rightarrow> string \<Rightarrow> string \<Rightarrow> string" where
  "getenv_default env k d = (case env k of None \<Rightarrow> d | Some v \<Rightarrow> v)"

subsection \<open>\<open>test_agent_engine\<close> and \<open>delete_agent_engine\<close>\<close>

text \<open>
  The loop over the response (lines 166 to 170): two conditional prints per chunk, then
  the exception of the stream, if it has one.
\<close>

fun print_chunks :: "chunk list \<Rightarrow> exn option \<Rightarrow> unit run" where
  "print_chunks [] err = (case err of None \<Rightarrow> ret () | Some e \<Rightarrow> raise_exn e)"
| "print_chunks (c # cs) err =
     seq (if chunk_content c \<noteq> [] then emit (Print (memo @ '' '' @ chunk_content c)) else ret ())
     (\<lambda>_. seq (case chunk_metadata c of
                 None \<Rightarrow> ret ()
               | Some m \<Rightarrow> emit (Print (magnifier @ '' Metadata: '' @ m)))
     (\<lambda>_. print_chunks cs err))"

definition default_test_query :: string where
  "default_test_query = ''Looking for inspirations around the Americas''"

definition test_agent_engine :: "world \<Rightarrow> string \<Rightarrow> string \<Rightarrow> bool run" where
  "test_agent_engine w resource_id test_query =
     seq (emit (Print (test_tube @ '' Testing agent with query: '' @ [CHR 0x27] @ test_query @ [CHR 0x27])))
     (\<lambda>_. let parts = split_on CHR ''/'' resource_id in
     seq (py_index parts 1) (\<lambda>project_id.
     seq (py_index parts 3) (\<lambda>location.
     seq (py_index parts 5) (\<lambda>reasoning_engine_id.
     seq (sdk_call (AiplatformInit project_id location) (w_init w)) (\<lambda>_.
     seq (sdk_call ClientCreate (w_client w)) (\<lambda>_.
     seq (sdk_call (BuildQueryRequest resource_id test_query) (w_query_request w)) (\<lambda>_.
     try_except
       (seq (sdk_call (QueryRequest resource_id test_query) (w_query w)) (\<lambda>_.
        seq (emit (Print (check_mark @ '' Agent response received:''))) (\<lambda>_.
        seq (print_chunks (w_chunks w) (w_iter_error w)) (\<lambda>_.
        ret True))))
       (\<lambda>e. seq (emit (Print (cross_mark @ '' Error testing agent: '' @ exn_str e))) (\<lambda>_.
             ret False)))))))))"

definition delete_agent_engine :: "world \<Rightarrow> string \<Rightarrow> bool run" where
  "delete_agent_engine w resource_id =
     seq (emit (Print (wastebasket @ ''  Deleting Agent Engine: '' @ resource_id)))
     (\<lambda>_. let parts = split_on CHR ''/'' resource_id in
     seq (py_index parts 1) (\<lambda>project_id.
     seq (py_index parts 3) (\<lambda>location.
     seq (py_index parts 5) (\<lambda>reasoning_engine_id.
     seq (sdk_call (AiplatformInit project_id location) (w_init w)) (\<lambda>_.
     seq (sdk_call ClientCreate (w_client w)) (\<lambda>_.
     try_except
       (seq (sdk_call (DeleteRequest resource_id) (w_delete w)) (\<lambda>_.
        seq (sdk_call OperationWait (w_delete_wait w)) (\<lambda>_.
        seq (emit (Print (check_mark @ '' Agent Engine deleted successfully!''))) (\<lambda>_.
        ret True))))
       (\<lambda>e. seq (emit (Print (cross_mark @ '' Error deleting agent: '' @ exn_str e))) (\<lambda>_.
             ret False))))))))"

subsection \<open>Credentials and upload\<close>

definition get_credentials :: "env \<Rightarrow> (string \<Rightarrow> bool) \<Rightarrow> credentials" where
  "get_credentials env path_exists =
     (let credentials_path = getenv_default env ''GOOGLE_APPLICATION_CREDENTIALS'' ''credentials.json''
      in if path_exists credentials_path then ServiceAccountFile credentials_path
         else ApplicationDefault)"

text \<open>
  The storage calls of \<open>upload_to_gcs\<close> are one SDK call of the model: the client, the
  bucket, the blob and \<open>upload_from_filename\<close> raise or return together.
\<close>

definition upload_to_gcs :: "world \<Rightarrow> env \<Rightarrow> string \<Rightarrow> string \<Rightarrow> string \<Rightarrow> string run" where
  "upload_to_gcs w env bucket_name local_path gcs_path =
     seq (sdk_call (Upload (get_credentials env (w_path_exists w)) bucket_name local_path gcs_path)
            (w_upload w))
     (\<lambda>_. ret (''gs://'' @ bucket_name @ ''/'' @ gcs_path))"

subsection \<open>The packager (lines 63 to 78 of \<open>create_agent_engine\<close>)\<close>

fun node_name :: "fsnode \<Rightarrow> string" where
  "node_name (FileN n) = n"
| "node_name (DirN n _) = n"

text \<open>The pattern \<open>*.py\<close>: the name ends in \<open>.py\<close>.\<close>

definition matches_py :: "string \<Rightarrow> bool" where
  "matches_py name = (3 \<le> length name \<and> drop (length name - 3) name = ''.py'')"

definition lookup_entry :: "string \<Rightarrow> fsnode list \<Rightarrow> fsnode option" where
  "lookup_entry name entries = find (\<lambda>c. node_name c = name) entries"

text \<open>
  \<open>Path.rglob('*.py')\<close> on the node found at \<open>parent / name\<close>: for the directory itself and
  then for each directory below it, the entries whose name matches, whatever their kind.
  On a path that is not a directory it yields nothing.
\<close>

fun rglob_py :: "path \<Rightarrow> fsnode \<Rightarrow> path list" where
  "rglob_py parent (FileN n) = []"
| "rglob_py parent (DirN n entries) =
     map (\<lambda>c. parent @ [n, node_name c]) (filter (\<lambda>c. matches_py (node_name c)) entries)
     @ concat (map (rglob_py (parent @ [n])) entries)"

definition rglob_package :: "path \<Rightarrow> fsnode list \<Rightarrow> path list" where
  "rglob_package root_dir entries =
     (case lookup_entry ''travel_concierge'' entries of
        None \<Rightarrow> []
      | Some node \<Rightarrow> rglob_py root_dir node)"

text \<open>\<open>p.relative_to(base)\<close>: raises \<open>ValueError\<close> unless \<open>base\<close> is a prefix of \<open>p\<close>.\<close>

definition relative_to :: "path \<Rightarrow> path \<Rightarrow> path run" where
  "relative_to p base =
     (if take (length base) p = base then ret (drop (length base) p)
      else raise_exn (ValueError ([CHR 0x27] @ path_str p @ [CHR 0x27] @ '' is not in the subpath of ''
                                   @ [CHR 0x27] @ path_str base @ [CHR 0x27])))"

fun zip_sources :: "path \<Rightarrow> path list \<Rightarrow> unit run" where
  "zip_sources root_dir [] = ret ()"
| "zip_sources root_dir (file_path # rest) =
     seq (relative_to file_path root_dir) (\<lambda>arcname.
     seq (emit (ZipWrite file_path arcname)) (\<lambda>_.
     zip_sources root_dir rest))"

definition config_files :: "string list" where
  "config_files = [''pyproject.toml'', ''README.md'']"

fun zip_configs :: "path \<Rightarrow> fsnode list \<Rightarrow> string list \<Rightarrow> unit run" where
  "zip_configs root_dir entries [] = ret ()"
| "zip_configs root_dir entries (config_file # rest) =
     seq (if lookup_entry config_file entries \<noteq> None
          then emit (ZipWrite (root_dir @ [config_file]) [config_file])
          else ret ())
     (\<lambda>_. zip_configs root_dir entries rest)"

definition write_archive :: "world \<Rightarrow> unit run" where
  "write_archive w =
     seq (zip_sources (w_root_dir w) (rglob_package (w_root_dir w) (w_root_entries w))) (\<lambda>_.
     zip_configs (w_root_dir w) (w_root_entries w) config_files)"

text \<open>The entries of the archive, in the order written: the file and its name in the archive.\<close>

fun archive_entries :: "event list \<Rightarrow> (path \<times> path) list" where
  "archive_entries [] = []"
| "archive_entries (ZipWrite f a # evs) = (f, a) # archive_entries evs"
| "archive_entries (_ # evs) = archive_entries evs"

subsection \<open>\<open>create_agent_engine\<close>\<close>

text \<open>\<open>str(n)\<close> for \<open>n = int(time.time())\<close>.\<close>

fun str_nat :: "nat \<Rightarrow> string" where
  "str_nat n =
     (if n < 10 then [''0123456789'' ! n]
      else str_nat (n div 10) @ [''0123456789'' ! (n mod 10)])"

declare str_nat.simps [simp del]

definition create_agent_engine ::
  "world \<Rightarrow> env \<Rightarrow> string \<Rightarrow> string \<Rightarrow> string \<Rightarrow> string \<Rightarrow> string run" where
  "create_agent_engine w env project_id location bucket_name display_name =
     seq (sdk_call (AiplatformInit project_id location) (w_init w)) (\<lambda>_.
     seq (emit (Print (package_sign @ '' Uploading agent code to Google Cloud Storage...''))) (\<lambda>_.
     seq (emit (TempFileCreate (w_tmp_name w))) (\<lambda>_.
     seq (write_archive w) (\<lambda>_.
     let gcs_path = ''agents/travel-concierge-'' @ str_nat (w_time w) @ ''.zip'' in
     seq (upload_to_gcs w env bucket_name (w_tmp_name w) gcs_path) (\<lambda>gcs_uri.
     seq (emit (Unlink (w_tmp_name w))) (\<lambda>_.
     seq (emit (Print (check_mark @ '' Agent code uploaded to: '' @ gcs_uri))) (\<lambda>_.
     seq (emit (Print (rocket @ '' Creating Agent Engine resource...''))) (\<lambda>_.
     seq (sdk_call ClientCreate (w_client w)) (\<lambda>_.
     let parent = ''projects/'' @ project_id @ ''/locations/'' @ location in
     seq (sdk_call (BuildReasoningEngine display_name gcs_uri) (w_engine w)) (\<lambda>_.
     seq (sdk_call (CreateRequest parent display_name gcs_uri) (w_create w)) (\<lambda>_.
     seq (emit (Print (hourglass @ '' Waiting for deployment to complete...''))) (\<lambda>_.
     seq (sdk_call OperationWait (w_wait w)) (\<lambda>_.
     let resource_name = w_resource_name w in
     seq (emit (Print (check_mark @ '' Agent Engine created successfully!''))) (\<lambda>_.
     seq (emit (Print (clipboard @ '' Resource ID: '' @ resource_name))) (\<lambda>_.
     ret resource_name)))))))))))))))"

subsection \<open>\<open>main\<close>\<close>

text \<open>
  The parsed command line, as \<open>parser.parse_args()\<close> returns it: the three flags are
  \<open>store_true\<close>, \<open>--location\<close> and \<open>--display_name\<close> have defaults, the others are
  \<open>None\<close> when absent. A command line that \<open>argparse\<close> ends by itself (\<open>--help\<close>, an
  unknown option) never gets this far; \<open>main\<close> below starts after line 219.
\<close>

record cli_args =
  args_create :: bool
  args_delete :: bool
  args_quicktest :: bool
  args_resource_id :: "string option"
  args_project_id :: "string option"
  args_location :: string
  args_bucket :: "string option"
  args_display_name :: string

text \<open>
  How the process ends: \<open>sys.exit(n)\<close>, or the end of \<open>main\<close> (status 0), is \<open>Exit\<close>;
  an exception that nothing in \<open>main\<close> catches is \<open>Uncaught\<close>. For the latter the
  interpreter prints the traceback and ends the process with status 1.
\<close>

datatype outcome = Exit nat | Uncaught exn

fun exit_code :: "outcome \<Rightarrow> nat" where
  "exit_code (Exit n) = n"
| "exit_code (Uncaught e) = 1"

text \<open>An optional string inside an f-string.\<close>

fun format_opt :: "string option \<Rightarrow> string" where
  "format_opt None = ''None''"
| "format_opt (Some s) = s"

definition missing_project_message :: string where
  "missing_project_message =
     cross_mark @ '' Error: GOOGLE_CLOUD_PROJECT environment variable or --project_id required''"

definition missing_bucket_message :: string where
  "missing_bucket_message =
     cross_mark @ '' Error: GOOGLE_CLOUD_STORAGE_BUCKET environment variable or --bucket required''"

definition main :: "cli_args \<Rightarrow> env \<Rightarrow> world \<Rightarrow> event list \<times> outcome" where
  "main args env w =
     (let project_id = py_or (args_project_id args) (env ''GOOGLE_CLOUD_PROJECT'');
          bucket_name = py_or (args_bucket args) (env ''GOOGLE_CLOUD_STORAGE_BUCKET'')
      in
      if \<not> truthy project_id then ([Print missing_project_message], Exit 1)
      else if \<not> truthy bucket_name then ([Print missing_bucket_message], Exit 1)
      else
        let configuration =
              [Print (wrench @ '' Configuration:''),
               Print (''   Project ID: '' @ format_opt project_id),
               Print (''   Location: '' @ args_location args),
               Print (''   GCS Bucket: '' @ format_opt bucket_name),
               Print []]
        in
        if args_create args then
          (case create_agent_engine w env (format_opt project_id) (args_location args)
                  (format_opt bucket_name) (args_display_name args) of
             (t, Inr resource_id) \<Rightarrow>
               (configuration @ t @
                  [Print ([CHR 0x0A] @ party_popper @ '' Deployment successful!''),
                   Print (clipboard @ '' Resource ID: '' @ resource_id),
                   Print ([CHR 0x0A] @ ''To test the agent, run:''),
                   Print (''python deployment/deploy.py --quicktest --resource_id='' @ resource_id)],
                Exit 0)
           | (t, Inl e) \<Rightarrow>
               (configuration @ t @ [Print (cross_mark @ '' Error creating agent: '' @ exn_str e)],
                Exit 1))
        else if args_quicktest args then
          (if \<not> truthy (args_resource_id args)
           then (configuration @ [Print (cross_mark @ '' Error: --resource_id required for testing'')],
                 Exit 1)
           else
             (case test_agent_engine w (format_opt (args_resource_id args)) default_test_query of
                (t, Inl e) \<Rightarrow> (configuration @ t, Uncaught e)
              | (t, Inr success) \<Rightarrow> (configuration @ t, if \<not> success then Exit 1 else Exit 0)))
        else if args_delete args then
          (if \<not> truthy (args_resource_id args)
           then (configuration @ [Print (cross_mark @ '' Error: --resource_id required for deletion'')],
                 Exit 1)
           else
             (case delete_agent_engine w (format_opt (args_resource_id args)) of
                (t, Inl e) \<Rightarrow> (configuration @ t, Uncaught e)
              | (t, Inr success) \<Rightarrow> (configuration @ t, if \<not> success then Exit 1 else Exit 0)))
        else (configuration @ [PrintHelp], Exit 0))"

subsection \<open>The command that runs\<close>

text \<open>
  The \<open>if\<close>/\<open>elif\<close> chain of \<open>main\<close> (lines 239, 256, 265 and 274) read as a choice of
  one command. The exit code contract is stated in these terms: a configuration error,
  an exception of the create flow, a false result of the test or the delete operation,
  and, apart from these, an exception that leaves the test or the delete operation.
\<close>

datatype command = Create | Test | Delete | Help

text \<open>The lines that lines 233 to 237 print, for the resolved project and bucket.\<close>

definition configuration_lines :: "cli_args \<Rightarrow> env \<Rightarrow> event list" where
  "configuration_lines args env =
     [Print (wrench @ '' Configuration:''),
      Print (''   Project ID: '' @
             format_opt (py_or (args_project_id args) (env ''GOOGLE_CLOUD_PROJECT''))),
      Print (''   Location: '' @ args_location args),
      Print (''   GCS Bucket: '' @
             format_opt (py_or (args_bucket args) (env ''GOOGLE_CLOUD_STORAGE_BUCKET''))),
      Print []]"

definition selected_command :: "cli_args \<Rightarrow> command" where
  "selected_command args =
     (if args_create args then Create
      else if args_quicktest args then Test
      else if args_delete args then Delete
      else Help)"

text \<open>
  The events that only one command produces: the packaging, the upload, the resource
  description and the creation request belong to create, the query and its request
  object to test, the deletion request to delete, the help to the case of no command. Printing, \<open>aiplatform.init\<close>, the construction of the
  client and the wait for an operation are common to several.
\<close>

fun command_of_event :: "event \<Rightarrow> command option" where
  "command_of_event (TempFileCreate _) = Some Create"
| "command_of_event (ZipWrite _ _) = Some Create"
| "command_of_event (Upload _ _ _ _) = Some Create"
| "command_of_event (Unlink _) = Some Create"
| "command_of_event (BuildReasoningEngine _ _) = Some Create"
| "command_of_event (CreateRequest _ _ _) = Some Create"
| "command_of_event (BuildQueryRequest _ _) = Some Test"
| "command_of_event (QueryRequest _ _) = Some Test"
| "command_of_event (DeleteRequest _) = Some Delete"
| "command_of_event PrintHelp = Some Help"
| "command_of_event _ = None"

definition only_command :: "command \<Rightarrow> event list \<Rightarrow> bool" where
  "only_command c t =
     list_all (\<lambda>ev. command_of_event ev = None \<or> command_of_event ev = Some c) t"

definition resolved_project :: "cli_args \<Rightarrow> env \<Rightarrow> bool" where
  "resolved_project args env =
     (truthy (args_project_id args) \<or> truthy (env ''GOOGLE_CLOUD_PROJECT''))"

definition resolved_bucket :: "cli_args \<Rightarrow> env \<Rightarrow> bool" where
  "resolved_bucket args env =
     (truthy (args_bucket args) \<or> truthy (env ''GOOGLE_CLOUD_STORAGE_BUCKET''))"

definition configuration_error :: "cli_args \<Rightarrow> env \<Rightarrow> bool" where
  "configuration_error args env =
     (\<not> resolved_project args env \<or> \<not> resolved_bucket args env \<or>
      ((selected_command args = Test \<or> selected_command args = Delete) \<and>
       \<not> truthy (args_resource_id args)))"

definition create_raised :: "cli_args \<Rightarrow> env \<Rightarrow> world \<Rightarrow> bool" where
  "create_raised args env w =
     (selected_command args = Create \<and>
      isl (snd (create_agent_engine w env
                  (format_opt (py_or (args_project_id args) (env ''GOOGLE_CLOUD_PROJECT'')))
                  (args_location args)
                  (format_opt (py_or (args_bucket args) (env ''GOOGLE_CLOUD_STORAGE_BUCKET'')))
                  (args_display_name args))))"

definition operation_result :: "cli_args \<Rightarrow> world \<Rightarrow> exn + bool" where
  "operation_result args w =
     (if selected_command args = Test
      then snd (test_agent_engine w (format_opt (args_resource_id args)) default_test_query)
      else snd (delete_agent_engine w (format_opt (args_resource_id args))))"

definition operation_returned_false :: "cli_args \<Rightarrow> world \<Rightarrow> bool" where
  "operation_returned_false args w =
     ((selected_command args = Test \<or> selected_command args = Delete) \<and>
      operation_result args w = Inr False)"

definition operation_raised :: "cli_args \<Rightarrow> world \<Rightarrow> bool" where
  "operation_raised args w =
     ((selected_command args = Test \<or> selected_command args = Delete) \<and>
      isl (operation_result args w))"

subsection \<open>What the archive should hold\<close>

text \<open>
  The contents of the archive as the specification words them, to compare with what the
  packager writes. \<open>paths_below\<close> lists every path strictly below a directory with its
  node, each directory before its contents. Paths are relative to the repository root.
\<close>

fun is_file :: "fsnode \<Rightarrow> bool" where
  "is_file (FileN _) = True"
| "is_file (DirN _ _) = False"

fun paths_below :: "path \<Rightarrow> fsnode \<Rightarrow> (path \<times> fsnode) list" where
  "paths_below parent (FileN n) = []"
| "paths_below parent (DirN n entries) =
     concat (map (\<lambda>c. (parent @ [n, node_name c], c) # paths_below (parent @ [n]) c) entries)"

definition package_paths :: "fsnode list \<Rightarrow> (path \<times> fsnode) list" where
  "package_paths entries =
     (case lookup_entry ''travel_concierge'' entries of
        None \<Rightarrow> []
      | Some node \<Rightarrow> paths_below [] node)"

text \<open>The source files: the regular files below the package directory named \<open>*.py\<close>.\<close>

definition spec_source_files :: "fsnode list \<Rightarrow> path list" where
  "spec_source_files entries =
     map fst (filter (\<lambda>(p, c). is_file c \<and> matches_py (node_name c)) (package_paths entries))"

text \<open>Every path below the package directory named \<open>*.py\<close>, regular file or directory.\<close>

definition spec_matching_paths :: "fsnode list \<Rightarrow> path list" where
  "spec_matching_paths entries =
     map fst (filter (\<lambda>(p, c). matches_py (node_name c)) (package_paths entries))"

text \<open>The metadata files present at the root.\<close>

definition spec_present_metadata :: "fsnode list \<Rightarrow> string list" where
  "spec_present_metadata entries =
     filter (\<lambda>f. list_ex (\<lambda>c. node_name c = f) entries) config_files"

subsection \<open>Sample inputs\<close>

definition sample_handle :: string where
  "sample_handle = ''projects/p1/locations/us-central1/reasoningEngines/abc123''"

definition malformed_handle :: string where
  "malformed_handle = ''abc123''"

definition sample_tree :: "fsnode list" where
  "sample_tree =
     [DirN ''travel_concierge''
        [FileN ''__init__.py'', FileN ''agent.py'',
         DirN ''tools'' [FileN ''search.py'', FileN ''notes.txt'']],
      FileN ''README.md'']"

definition no_file_exists :: "string \<Rightarrow> bool" where
  "no_file_exists p = False"

definition only_credentials_json_exists :: "string \<Rightarrow> bool" where
  "only_credentials_json_exists p = (p = ''credentials.json'')"

text \<open>A world in which every SDK call returns.\<close>

definition quiet_world :: world where
  "quiet_world =
     \<lparr> w_root_dir = [''repo''],
       w_root_entries = sample_tree,
       w_path_exists = no_file_exists,
       w_time = 17,
       w_tmp_name = ''/tmp/tmp0.zip'',
       w_init = None, w_upload = None, w_client = None, w_engine = None,
       w_create = None, w_wait = None,
       w_resource_name = sample_handle,
       w_query_request = None,
       w_query = None,
       w_chunks = [\<lparr> chunk_content = ''Hello'', chunk_metadata = None \<rparr>],
       w_iter_error = None,
       w_delete = None, w_delete_wait = None \<rparr>"

text \<open>A world in which the query and the wait for the deletion raise.\<close>

definition refusing_world :: world where
  "refusing_world =
     quiet_world \<lparr> w_query := Some (SdkError ''connection refused''),
                   w_create := Some (SdkError ''quota exceeded''),
                   w_delete_wait := Some (SdkError ''connection refused'') \<rparr>"

text \<open>
  Worlds in which a message object is refused: the request of the query, and the
  description of the resource.
\<close>

definition request_rejected_world :: world where
  "request_rejected_world =
     quiet_world \<lparr> w_query_request :=
                     Some (ValueError ''Unknown field for QueryReasoningEngineRequest: query'') \<rparr>"

definition engine_rejected_world :: world where
  "engine_rejected_world =
     quiet_world \<lparr> w_engine := Some (ValueError ''Unknown field for ReasoningEngine: spec'') \<rparr>"

text \<open>A tree whose package directory holds one directory named like a source file.\<close>

definition directory_named_py_world :: world where
  "directory_named_py_world =
     quiet_world \<lparr> w_root_entries := [DirN ''travel_concierge'' [DirN ''models.py'' []]] \<rparr>"

definition empty_env :: env where
  "empty_env k = None"

definition configured_env :: env where
  "configured_env k =
     (if k = ''GOOGLE_CLOUD_PROJECT'' then Some ''p1''
      else if k = ''GOOGLE_CLOUD_STORAGE_BUCKET'' then Some ''b1''
      else None)"

text \<open>The command line with no argument at all.\<close>

definition no_arguments :: cli_args where
  "no_arguments =
     \<lparr> args_create = False, args_delete = False, args_quicktest = False,
       args_resource_id = None, args_project_id = None,
       args_location = ''us-central1'', args_bucket = None,
       args_display_name = ''Travel Concierge Agent'' \<rparr>"

text \<open>Command lines for the test operation, with a well-formed and a malformed resource id.\<close>

definition quicktest_sample :: cli_args where
  "quicktest_sample =
     no_arguments \<lparr> args_quicktest := True, args_resource_id := Some sample_handle \<rparr>"

definition quicktest_malformed :: cli_args where
  "quicktest_malformed =
     no_arguments \<lparr> args_quicktest := True, args_resource_id := Some malformed_handle \<rparr>"

text \<open>All three command flags at once, and test with delete.\<close>

definition all_flags :: cli_args where
  "all_flags =
     no_arguments \<lparr> args_create := True, args_quicktest := True, args_delete := True,
                    args_resource_id := Some sample_handle \<rparr>"

definition quicktest_and_delete :: cli_args where
  "quicktest_and_delete =
     no_arguments \<lparr> args_quicktest := True, args_delete := True,
                    args_resource_id := Some sample_handle \<rparr>"

text \<open>An environment that names a key file, and a file system that holds it.\<close>

definition key_file_env :: env where
  "key_file_env k =
     (if k = ''GOOGLE_APPLICATION_CREDENTIALS'' then Some ''/keys/sa.json'' else None)"

definition only_key_file_exists :: "string \<Rightarrow> bool" where
  "only_key_file_exists p = (p = ''/keys/sa.json'')"

text \<open>A tree without the package directory.\<close>

definition no_package_world :: world where
  "no_package_world = quiet_world \<lparr> w_root_entries := [FileN ''README.md''] \<rparr>"


section \<open>Properties\<close>

subsection \<open>Runs\<close>

lemma seq_ret: "seq (ret x) f = f x"
  by (simp add: seq_def ret_def split: prod.splits)

lemma seq_raise: "seq (raise_exn e) f = raise_exn e"
  by (simp add: seq_def raise_exn_def)

lemma seq_emit: "seq (emit ev) f = (ev # fst (f ()), snd (f ()))"
  by (simp add: seq_def emit_def split: prod.splits)

lemma seq_sdk_call_ok: "seq (sdk_call ev None) f = (ev # fst (f ()), snd (f ()))"
  by (simp add: seq_def sdk_call_def split: prod.splits)

lemma seq_sdk_call_raise: "seq (sdk_call ev (Some e)) f = ([ev], Inl e)"
  by (simp add: seq_def sdk_call_def)

lemma seq_Inl: "seq (t, Inl e) f = (t, Inl e)"
  by (simp add: seq_def)

lemma seq_Inr: "seq (t, Inr x) f = (t @ fst (f x), snd (f x))"
  by (simp add: seq_def split: prod.splits)

lemma fst_ret: "fst (ret x) = []" and snd_ret: "snd (ret x) = Inr x"
  by (simp_all add: ret_def)

lemma fst_raise: "fst (raise_exn e) = []" and snd_raise: "snd (raise_exn e) = Inl e"
  by (simp_all add: raise_exn_def)

lemma fst_seq:
  "fst (seq m f) = (case snd m of Inl e \<Rightarrow> fst m | Inr x \<Rightarrow> fst m @ fst (f x))"
  by (cases m) (simp add: seq_def split: sum.splits prod.splits)

lemma snd_seq:
  "snd (seq m f) = (case snd m of Inl e \<Rightarrow> Inl e | Inr x \<Rightarrow> snd (f x))"
  by (cases m) (simp add: seq_def split: sum.splits prod.splits)

lemma fst_try_except:
  "fst (try_except m h) = (case snd m of Inl e \<Rightarrow> fst m @ fst (h e) | Inr x \<Rightarrow> fst m)"
  by (cases m) (simp add: try_except_def split: sum.splits prod.splits)

lemma snd_try_except:
  "snd (try_except m h) = (case snd m of Inl e \<Rightarrow> snd (h e) | Inr x \<Rightarrow> Inr x)"
  by (cases m) (simp add: try_except_def split: sum.splits prod.splits)

lemmas run_simps =
  seq_ret seq_raise seq_emit seq_sdk_call_ok seq_sdk_call_raise seq_Inl seq_Inr
  fst_ret snd_ret fst_raise snd_raise

subsection \<open>Splitting a resource id\<close>

lemma split_on_no_sep: "c \<notin> set p \<Longrightarrow> split_on c p = [p]"
  by (induction p) auto

lemma split_on_append: "c \<notin> set p \<Longrightarrow> split_on c (p @ c # rest) = p # split_on c rest"
  by (induction p) auto

lemma split_on_handle:
  assumes "CHR ''/'' \<notin> set P" and "CHR ''/'' \<notin> set L"
  shows "split_on CHR ''/'' (''projects/'' @ P @ ''/locations/'' @ L @ ''/reasoningEngines/'' @ E)
         = ''projects'' # P # ''locations'' # L # ''reasoningEngines'' # split_on CHR ''/'' E"
  using assms by (simp add: split_on_append)

lemma length_split_on_handle:
  assumes "CHR ''/'' \<notin> set P" and "CHR ''/'' \<notin> set L"
  shows "6 \<le> length (split_on CHR ''/''
           (''projects/'' @ P @ ''/locations/'' @ L @ ''/reasoningEngines/'' @ E))"
proof -
  have "1 \<le> length (split_on CHR ''/'' E)"
    by (cases E) (auto split: list.splits)
  then show ?thesis
    unfolding split_on_handle [OF assms] by simp
qed

subsection \<open>The two operations that catch\<close>

lemma snd_print_chunks:
  "snd (print_chunks cs err) = (case err of None \<Rightarrow> Inr () | Some e \<Rightarrow> Inl e)"
  by (induction cs) (auto simp: run_simps split: option.splits)

lemma test_agent_engine_parsed:
  assumes "6 \<le> length (split_on CHR ''/'' rid)"
  shows "test_agent_engine w rid q =
     seq (emit (Print (test_tube @ '' Testing agent with query: '' @ [CHR 0x27] @ q @ [CHR 0x27])))
     (\<lambda>_.
     seq (sdk_call (AiplatformInit (split_on CHR ''/'' rid ! 1) (split_on CHR ''/'' rid ! 3)) (w_init w)) (\<lambda>_.
     seq (sdk_call ClientCreate (w_client w)) (\<lambda>_.
     seq (sdk_call (BuildQueryRequest rid q) (w_query_request w)) (\<lambda>_.
     try_except
       (seq (sdk_call (QueryRequest rid q) (w_query w)) (\<lambda>_.
        seq (emit (Print (check_mark @ '' Agent response received:''))) (\<lambda>_.
        seq (print_chunks (w_chunks w) (w_iter_error w)) (\<lambda>_.
        ret True))))
       (\<lambda>e. seq (emit (Print (cross_mark @ '' Error testing agent: '' @ exn_str e))) (\<lambda>_.
             ret False))))))"
  using assms by (simp add: test_agent_engine_def py_index_def seq_ret Let_def)

lemma delete_agent_engine_parsed:
  assumes "6 \<le> length (split_on CHR ''/'' rid)"
  shows "delete_agent_engine w rid =
     seq (emit (Print (wastebasket @ ''  Deleting Agent Engine: '' @ rid)))
     (\<lambda>_.
     seq (sdk_call (AiplatformInit (split_on CHR ''/'' rid ! 1) (split_on CHR ''/'' rid ! 3)) (w_init w)) (\<lambda>_.
     seq (sdk_call ClientCreate (w_client w)) (\<lambda>_.
     try_except
       (seq (sdk_call (DeleteRequest rid) (w_delete w)) (\<lambda>_.
        seq (sdk_call OperationWait (w_delete_wait w)) (\<lambda>_.
        seq (emit (Print (check_mark @ '' Agent Engine deleted successfully!''))) (\<lambda>_.
        ret True))))
       (\<lambda>e. seq (emit (Print (cross_mark @ '' Error deleting agent: '' @ exn_str e))) (\<lambda>_.
             ret False)))))"
  using assms by (simp add: delete_agent_engine_def py_index_def seq_ret Let_def)

lemma test_agent_engine_short:
  assumes "length (split_on CHR ''/'' rid) < 6"
  shows "test_agent_engine w rid q =
     ([Print (test_tube @ '' Testing agent with query: '' @ [CHR 0x27] @ q @ [CHR 0x27])],
      Inl IndexError)"
  using assms
  by (simp add: test_agent_engine_def py_index_def run_simps Let_def)

lemma delete_agent_engine_short:
  assumes "length (split_on CHR ''/'' rid) < 6"
  shows "delete_agent_engine w rid =
     ([Print (wastebasket @ ''  Deleting Agent Engine: '' @ rid)], Inl IndexError)"
  using assms
  by (simp add: delete_agent_engine_def py_index_def run_simps Let_def)

text \<open>
  Once the handle has parsed and the platform, the client and the request object are set
  up, the result of \<open>test_agent_engine\<close> is a boolean: true when the query and the
  iteration went through, false when either raised, and then the last line printed is the
  diagnostic. The same for \<open>delete_agent_engine\<close>, which builds no request object.
\<close>

lemma test_agent_engine_result:
  assumes "6 \<le> length (split_on CHR ''/'' rid)" and "w_init w = None" and "w_client w = None"
    and "w_query_request w = None"
  shows "snd (test_agent_engine w rid q) = Inr (w_query w = None \<and> w_iter_error w = None)"
  using assms
  by (cases "w_query w"; cases "w_iter_error w")
     (simp_all add: test_agent_engine_parsed run_simps snd_try_except snd_seq snd_print_chunks)

lemma test_agent_engine_diagnostic:
  assumes "6 \<le> length (split_on CHR ''/'' rid)" and "w_init w = None" and "w_client w = None"
    and "w_query_request w = None"
    and "w_query w = Some e \<or> (w_query w = None \<and> w_iter_error w = Some e)"
  shows "last (fst (test_agent_engine w rid q)) =
           Print (cross_mark @ '' Error testing agent: '' @ exn_str e)"
  using assms
  by (cases "w_query w")
     (auto simp: test_agent_engine_parsed run_simps fst_try_except snd_seq snd_print_chunks)

lemma delete_agent_engine_result:
  assumes "6 \<le> length (split_on CHR ''/'' rid)" and "w_init w = None" and "w_client w = None"
  shows "snd (delete_agent_engine w rid) = Inr (w_delete w = None \<and> w_delete_wait w = None)"
  using assms
  by (cases "w_delete w"; cases "w_delete_wait w")
     (simp_all add: delete_agent_engine_parsed run_simps snd_try_except snd_seq)

lemma delete_agent_engine_diagnostic:
  assumes "6 \<le> length (split_on CHR ''/'' rid)" and "w_init w = None" and "w_client w = None"
    and "w_delete w = Some e \<or> (w_delete w = None \<and> w_delete_wait w = Some e)"
  shows "last (fst (delete_agent_engine w rid)) =
           Print (cross_mark @ '' Error deleting agent: '' @ exn_str e)"
  using assms
  by (cases "w_delete w")
     (auto simp: delete_agent_engine_parsed run_simps fst_try_except snd_seq)

text \<open>When the query, and when the deletion request, is made at all.\<close>

lemma first_event_of_try:
  "ev \<in> set (fst (try_except (seq (sdk_call ev r) f) h))"
  by (cases r) (auto simp: run_simps fst_try_except split: sum.splits)

lemma query_issued_iff:
  "(QueryRequest rid q \<in> set (fst (test_agent_engine w rid q))) =
     (6 \<le> length (split_on CHR ''/'' rid) \<and> w_init w = None \<and> w_client w = None
      \<and> w_query_request w = None)"
proof (cases "6 \<le> length (split_on CHR ''/'' rid)")
  case False
  then show ?thesis
    by (simp add: test_agent_engine_short)
next
  case True
  then show ?thesis
    by (cases "w_init w"; cases "w_client w"; cases "w_query_request w")
       (simp_all add: test_agent_engine_parsed run_simps first_event_of_try)
qed

lemma delete_issued_iff:
  "(DeleteRequest rid \<in> set (fst (delete_agent_engine w rid))) =
     (6 \<le> length (split_on CHR ''/'' rid) \<and> w_init w = None \<and> w_client w = None)"
proof (cases "6 \<le> length (split_on CHR ''/'' rid)")
  case False
  then show ?thesis
    by (simp add: delete_agent_engine_short)
next
  case True
  then show ?thesis
    by (cases "w_init w"; cases "w_client w")
       (simp_all add: delete_agent_engine_parsed run_simps first_event_of_try)
qed

subsection \<open>C1: what test and delete catch\<close>

text \<open>
  C1: the claim is about what the remote client throws during the query and the
  iteration over its response (test), and during the deletion request and the wait for
  it (delete). Whenever a run of \<open>test_agent_engine\<close> gets as far as the query, it does not
  raise: its result is a boolean, true exactly when neither the query nor the iteration
  raised; for every exception raised there the result is false and the last line printed
  is the diagnostic with the text of the exception. The same holds for
  \<open>delete_agent_engine\<close> from the deletion request on. The query is made exactly when the
  resource id has six segments and \<open>aiplatform.init\<close>, the construction of the client and
  the construction of the request object have returned; the deletion request exactly when
  the first three of these hold. What happens before the remote call is not this claim's
  subject.
\<close>

theorem c1_test_delete_catch:
  "(QueryRequest rid q \<in> set (fst (test_agent_engine w rid q)) \<longrightarrow>
      snd (test_agent_engine w rid q) = Inr (w_query w = None \<and> w_iter_error w = None)
      \<and> (\<forall>e. w_query w = Some e \<or> (w_query w = None \<and> w_iter_error w = Some e) \<longrightarrow>
             snd (test_agent_engine w rid q) = Inr False
             \<and> last (fst (test_agent_engine w rid q)) =
                 Print (cross_mark @ '' Error testing agent: '' @ exn_str e)))
   \<and> (DeleteRequest rid \<in> set (fst (delete_agent_engine w rid)) \<longrightarrow>
      snd (delete_agent_engine w rid) = Inr (w_delete w = None \<and> w_delete_wait w = None)
      \<and> (\<forall>e. w_delete w = Some e \<or> (w_delete w = None \<and> w_delete_wait w = Some e) \<longrightarrow>
             snd (delete_agent_engine w rid) = Inr False
             \<and> last (fst (delete_agent_engine w rid)) =
                 Print (cross_mark @ '' Error deleting agent: '' @ exn_str e)))
   \<and> (QueryRequest rid q \<in> set (fst (test_agent_engine w rid q))) =
       (6 \<le> length (split_on CHR ''/'' rid) \<and> w_init w = None \<and> w_client w = None
        \<and> w_query_request w = None)
   \<and> (DeleteRequest rid \<in> set (fst (delete_agent_engine w rid))) =
       (6 \<le> length (split_on CHR ''/'' rid) \<and> w_init w = None \<and> w_client w = None)"
proof (intro conjI impI allI)
  assume "QueryRequest rid q \<in> set (fst (test_agent_engine w rid q))"
  then have reach: "6 \<le> length (split_on CHR ''/'' rid)" "w_init w = None" "w_client w = None"
    "w_query_request w = None"
    by (simp_all add: query_issued_iff)
  show result: "snd (test_agent_engine w rid q) = Inr (w_query w = None \<and> w_iter_error w = None)"
    by (rule test_agent_engine_result [OF reach])
  fix e
  assume raised: "w_query w = Some e \<or> (w_query w = None \<and> w_iter_error w = Some e)"
  then show "snd (test_agent_engine w rid q) = Inr False"
    using result by auto
  show "last (fst (test_agent_engine w rid q)) =
          Print (cross_mark @ '' Error testing agent: '' @ exn_str e)"
    by (rule test_agent_engine_diagnostic [OF reach raised])
next
  assume "DeleteRequest rid \<in> set (fst (delete_agent_engine w rid))"
  then have reach: "6 \<le> length (split_on CHR ''/'' rid)" "w_init w = None" "w_client w = None"
    by (simp_all add: delete_issued_iff)
  show result: "snd (delete_agent_engine w rid)
                = Inr (w_delete w = None \<and> w_delete_wait w = None)"
    by (rule delete_agent_engine_result [OF reach])
  fix e
  assume raised: "w_delete w = Some e \<or> (w_delete w = None \<and> w_delete_wait w = Some e)"
  then show "snd (delete_agent_engine w rid) = Inr False"
    using result by auto
  show "last (fst (delete_agent_engine w rid)) =
          Print (cross_mark @ '' Error deleting agent: '' @ exn_str e)"
    by (rule delete_agent_engine_diagnostic [OF reach raised])
next
  show "(QueryRequest rid q \<in> set (fst (test_agent_engine w rid q))) =
       (6 \<le> length (split_on CHR ''/'' rid) \<and> w_init w = None \<and> w_client w = None
        \<and> w_query_request w = None)"
    by (rule query_issued_iff)
  show "(DeleteRequest rid \<in> set (fst (delete_agent_engine w rid))) =
       (6 \<le> length (split_on CHR ''/'' rid) \<and> w_init w = None \<and> w_client w = None)"
    by (rule delete_issued_iff)
qed

theorem c1_test_delete_catch_witness:
  "QueryRequest sample_handle default_test_query
     \<in> set (fst (test_agent_engine refusing_world sample_handle default_test_query))
   \<and> w_query refusing_world = Some (SdkError ''connection refused'')
   \<and> snd (test_agent_engine refusing_world sample_handle default_test_query) = Inr False
   \<and> last (fst (test_agent_engine refusing_world sample_handle default_test_query)) =
        Print (cross_mark @ '' Error testing agent: connection refused'')
   \<and> DeleteRequest sample_handle \<in> set (fst (delete_agent_engine refusing_world sample_handle))
   \<and> w_delete refusing_world = None
   \<and> w_delete_wait refusing_world = Some (SdkError ''connection refused'')
   \<and> snd (delete_agent_engine refusing_world sample_handle) = Inr False
   \<and> last (fst (delete_agent_engine refusing_world sample_handle)) =
        Print (cross_mark @ '' Error deleting agent: connection refused'')"
proof -
  have len: "6 \<le> length (split_on CHR ''/'' sample_handle)"
    by (simp add: sample_handle_def)
  have ready: "w_init refusing_world = None" "w_client refusing_world = None"
    "w_query_request refusing_world = None"
    by (simp_all add: refusing_world_def quiet_world_def)
  have outcomes:
    "w_query refusing_world = Some (SdkError ''connection refused'')"
    "w_delete refusing_world = None"
    "w_delete_wait refusing_world = Some (SdkError ''connection refused'')"
    by (simp_all add: refusing_world_def quiet_world_def)
  note run = c1_test_delete_catch [of sample_handle default_test_query refusing_world]
  have query: "QueryRequest sample_handle default_test_query
     \<in> set (fst (test_agent_engine refusing_world sample_handle default_test_query))"
    and deletion: "DeleteRequest sample_handle
     \<in> set (fst (delete_agent_engine refusing_world sample_handle))"
    using run len ready by simp_all
  from run query deletion outcomes show ?thesis
    by simp
qed

subsection \<open>C4: parsing the resource id\<close>

text \<open>
  C4: both operations split the resource id on \<open>/\<close> and pass the segment at index 1 as
  the project and the segment at index 3 as the location to \<open>aiplatform.init\<close>, which is
  the second event of either run; for \<open>projects/P/locations/L/reasoningEngines/E\<close> these
  are \<open>P\<close> and \<open>L\<close>.
\<close>

theorem c4_resource_handle_parsing:
  "(6 \<le> length (split_on CHR ''/'' rid) \<longrightarrow>
      take 2 (fst (test_agent_engine w rid q)) =
        [Print (test_tube @ '' Testing agent with query: '' @ [CHR 0x27] @ q @ [CHR 0x27]),
         AiplatformInit (split_on CHR ''/'' rid ! 1) (split_on CHR ''/'' rid ! 3)]
      \<and> take 2 (fst (delete_agent_engine w rid)) =
        [Print (wastebasket @ ''  Deleting Agent Engine: '' @ rid),
         AiplatformInit (split_on CHR ''/'' rid ! 1) (split_on CHR ''/'' rid ! 3)])
   \<and> (CHR ''/'' \<notin> set P \<and> CHR ''/'' \<notin> set L \<longrightarrow>
      (let handle = ''projects/'' @ P @ ''/locations/'' @ L @ ''/reasoningEngines/'' @ E in
       fst (test_agent_engine w handle q) ! 1 = AiplatformInit P L
       \<and> fst (delete_agent_engine w handle) ! 1 = AiplatformInit P L))"
proof (intro conjI impI)
  assume len: "6 \<le> length (split_on CHR ''/'' rid)"
  show "take 2 (fst (test_agent_engine w rid q)) =
        [Print (test_tube @ '' Testing agent with query: '' @ [CHR 0x27] @ q @ [CHR 0x27]),
         AiplatformInit (split_on CHR ''/'' rid ! 1) (split_on CHR ''/'' rid ! 3)]"
    by (cases "w_init w") (simp_all add: test_agent_engine_parsed [OF len] run_simps)
  show "take 2 (fst (delete_agent_engine w rid)) =
        [Print (wastebasket @ ''  Deleting Agent Engine: '' @ rid),
         AiplatformInit (split_on CHR ''/'' rid ! 1) (split_on CHR ''/'' rid ! 3)]"
    by (cases "w_init w") (simp_all add: delete_agent_engine_parsed [OF len] run_simps)
next
  assume "CHR ''/'' \<notin> set P \<and> CHR ''/'' \<notin> set L"
  then have P: "CHR ''/'' \<notin> set P" and L: "CHR ''/'' \<notin> set L"
    by simp_all
  let ?h = "''projects/'' @ P @ ''/locations/'' @ L @ ''/reasoningEngines/'' @ E"
  have len: "6 \<le> length (split_on CHR ''/'' ?h)"
    by (rule length_split_on_handle [OF P L])
  have sp: "split_on CHR ''/'' ?h
         = ''projects'' # P # ''locations'' # L # ''reasoningEngines'' # split_on CHR ''/'' E"
    by (rule split_on_handle [OF P L])
  have "fst (test_agent_engine w ?h q) ! 1 = AiplatformInit P L"
    unfolding test_agent_engine_parsed [OF len] sp
    by (cases "w_init w") (simp_all add: run_simps)
  moreover have "fst (delete_agent_engine w ?h) ! 1 = AiplatformInit P L"
    unfolding delete_agent_engine_parsed [OF len] sp
    by (cases "w_init w") (simp_all add: run_simps)
  ultimately show "let handle = ?h in
       fst (test_agent_engine w handle q) ! 1 = AiplatformInit P L
       \<and> fst (delete_agent_engine w handle) ! 1 = AiplatformInit P L"
    by (simp add: Let_def)
qed

theorem c4_resource_handle_parsing_witness:
  "6 \<le> length (split_on CHR ''/'' ''projects/P/locations/L/reasoningEngines/E'')
   \<and> CHR ''/'' \<notin> set ''P'' \<and> CHR ''/'' \<notin> set ''L''
   \<and> fst (test_agent_engine quiet_world ''projects/P/locations/L/reasoningEngines/E'' default_test_query) ! 1
       = AiplatformInit ''P'' ''L''
   \<and> fst (delete_agent_engine quiet_world ''projects/P/locations/L/reasoningEngines/E'') ! 1
       = AiplatformInit ''P'' ''L''"
  using c4_resource_handle_parsing
    [of "''projects/P/locations/L/reasoningEngines/E''" quiet_world default_test_query "''P''" "''L''" "''E''"]
  by (simp add: Let_def)

subsection \<open>The dispatcher\<close>

lemma truthy_py_or: "truthy (py_or a b) = (truthy a \<or> truthy b)"
  by (simp add: py_or_def)

lemma main_unresolved_project:
  assumes "\<not> resolved_project args env"
  shows "main args env w = ([Print missing_project_message], Exit 1)"
  using assms by (simp add: main_def resolved_project_def truthy_py_or Let_def)

lemma main_unresolved_bucket:
  assumes "resolved_project args env" and "\<not> resolved_bucket args env"
  shows "main args env w = ([Print missing_bucket_message], Exit 1)"
  using assms
  by (simp add: main_def resolved_project_def resolved_bucket_def truthy_py_or Let_def)

lemma main_help:
  assumes "resolved_project args env" and "resolved_bucket args env"
    and "\<not> args_create args" and "\<not> args_quicktest args" and "\<not> args_delete args"
  shows "main args env w = (configuration_lines args env @ [PrintHelp], Exit 0)"
  using assms
  by (simp add: main_def resolved_project_def resolved_bucket_def truthy_py_or Let_def
      configuration_lines_def)

lemma main_create:
  assumes "resolved_project args env" and "resolved_bucket args env" and "args_create args"
  shows "main args env w =
     (let r = create_agent_engine w env
                (format_opt (py_or (args_project_id args) (env ''GOOGLE_CLOUD_PROJECT'')))
                (args_location args)
                (format_opt (py_or (args_bucket args) (env ''GOOGLE_CLOUD_STORAGE_BUCKET'')))
                (args_display_name args)
      in (configuration_lines args env @ fst r @
          (case snd r of
             Inr resource_id \<Rightarrow>
               [Print ([CHR 0x0A] @ party_popper @ '' Deployment successful!''),
                Print (clipboard @ '' Resource ID: '' @ resource_id),
                Print ([CHR 0x0A] @ ''To test the agent, run:''),
                Print (''python deployment/deploy.py --quicktest --resource_id='' @ resource_id)]
           | Inl e \<Rightarrow> [Print (cross_mark @ '' Error creating agent: '' @ exn_str e)]),
          if isl (snd r) then Exit 1 else Exit 0))"
proof -
  obtain t r where run: "create_agent_engine w env
                (format_opt (py_or (args_project_id args) (env ''GOOGLE_CLOUD_PROJECT'')))
                (args_location args)
                (format_opt (py_or (args_bucket args) (env ''GOOGLE_CLOUD_STORAGE_BUCKET'')))
                (args_display_name args) = (t, r)"
    by (cases "create_agent_engine w env
                (format_opt (py_or (args_project_id args) (env ''GOOGLE_CLOUD_PROJECT'')))
                (args_location args)
                (format_opt (py_or (args_bucket args) (env ''GOOGLE_CLOUD_STORAGE_BUCKET'')))
                (args_display_name args)")
  show ?thesis
    using assms
    by (cases r)
       (simp_all add: main_def resolved_project_def resolved_bucket_def truthy_py_or Let_def
          configuration_lines_def run)
qed

lemma main_no_resource_id:
  assumes "resolved_project args env" and "resolved_bucket args env" and "\<not> args_create args"
    and "args_quicktest args \<or> args_delete args" and "\<not> truthy (args_resource_id args)"
  shows "main args env w =
     (configuration_lines args env @
      [Print (cross_mark @ (if args_quicktest args
                            then '' Error: --resource_id required for testing''
                            else '' Error: --resource_id required for deletion''))],
      Exit 1)"
  using assms
  by (auto simp: main_def resolved_project_def resolved_bucket_def truthy_py_or Let_def
      configuration_lines_def)

lemma main_quicktest:
  assumes "resolved_project args env" and "resolved_bucket args env" and "\<not> args_create args"
    and "args_quicktest args" and "truthy (args_resource_id args)"
  shows "main args env w =
     (let r = test_agent_engine w (format_opt (args_resource_id args)) default_test_query
      in (configuration_lines args env @ fst r,
          case snd r of Inl e \<Rightarrow> Uncaught e
                      | Inr success \<Rightarrow> if \<not> success then Exit 1 else Exit 0))"
proof -
  obtain t r where run:
    "test_agent_engine w (format_opt (args_resource_id args)) default_test_query = (t, r)"
    by (cases "test_agent_engine w (format_opt (args_resource_id args)) default_test_query")
  show ?thesis
    using assms
    by (cases r)
       (simp_all add: main_def resolved_project_def resolved_bucket_def truthy_py_or Let_def
          configuration_lines_def run)
qed

lemma main_delete:
  assumes "resolved_project args env" and "resolved_bucket args env" and "\<not> args_create args"
    and "\<not> args_quicktest args" and "args_delete args" and "truthy (args_resource_id args)"
  shows "main args env w =
     (let r = delete_agent_engine w (format_opt (args_resource_id args))
      in (configuration_lines args env @ fst r,
          case snd r of Inl e \<Rightarrow> Uncaught e
                      | Inr success \<Rightarrow> if \<not> success then Exit 1 else Exit 0))"
proof -
  obtain t r where run: "delete_agent_engine w (format_opt (args_resource_id args)) = (t, r)"
    by (cases "delete_agent_engine w (format_opt (args_resource_id args))")
  show ?thesis
    using assms
    by (cases r)
       (simp_all add: main_def resolved_project_def resolved_bucket_def truthy_py_or Let_def
          configuration_lines_def run)
qed

lemma length_configuration_lines: "length (configuration_lines args env) = 5"
  by (simp add: configuration_lines_def)

subsection \<open>C2: missing configuration\<close>

text \<open>
  C2: when neither \<open>--project_id\<close> nor \<open>GOOGLE_CLOUD_PROJECT\<close>, or neither \<open>--bucket\<close> nor
  \<open>GOOGLE_CLOUD_STORAGE_BUCKET\<close>, gives a non-empty value, the run of \<open>main\<close> is one
  printed line, the error that names the missing setting (the project when both are
  missing), and \<open>sys.exit(1)\<close>: no call into the SDK is among its events.
\<close>

theorem c2_missing_configuration:
  assumes "\<not> resolved_project args env \<or> \<not> resolved_bucket args env"
  shows "snd (main args env w) = Exit 1
       \<and> fst (main args env w) =
           [Print (if \<not> resolved_project args env
                   then cross_mark @ '' Error: GOOGLE_CLOUD_PROJECT environment variable or --project_id required''
                   else cross_mark @ '' Error: GOOGLE_CLOUD_STORAGE_BUCKET environment variable or --bucket required'')]
       \<and> \<not> list_ex is_remote_call (fst (main args env w))"
proof (cases "resolved_project args env")
  case False
  then show ?thesis
    by (simp add: main_unresolved_project missing_project_message_def)
next
  case True
  with assms have "\<not> resolved_bucket args env"
    by simp
  with True show ?thesis
    by (simp add: main_unresolved_bucket missing_bucket_message_def)
qed

theorem c2_missing_configuration_witness:
  "\<not> resolved_project all_flags empty_env
   \<and> snd (main all_flags empty_env quiet_world) = Exit 1
   \<and> fst (main all_flags empty_env quiet_world) =
        [Print (cross_mark @ '' Error: GOOGLE_CLOUD_PROJECT environment variable or --project_id required'')]
   \<and> \<not> list_ex is_remote_call (fst (main all_flags empty_env quiet_world))"
proof -
  have missing: "\<not> resolved_project all_flags empty_env"
    by (simp add: resolved_project_def all_flags_def no_arguments_def empty_env_def)
  then have "\<not> resolved_project all_flags empty_env \<or> \<not> resolved_bucket all_flags empty_env"
    by simp
  from c2_missing_configuration [OF this, of quiet_world] missing show ?thesis
    by simp
qed

subsection \<open>C6: no command flag\<close>

text \<open>
  C6, as stated: with none of the three command flags the program prints the help and
  exits with 0. Not for every such invocation: the configuration is checked before the
  flags are looked at, so with no argument and no environment variable the run is the
  configuration error and exit code 1.
\<close>

theorem c6_no_flags_without_configuration:
  "\<not> args_create no_arguments \<and> \<not> args_quicktest no_arguments \<and> \<not> args_delete no_arguments
   \<and> main no_arguments empty_env quiet_world = ([Print missing_project_message], Exit 1)"
  by (simp add: main_unresolved_project resolved_project_def no_arguments_def empty_env_def)

text \<open>
  C6, amended: with none of the three command flags, and the project and the bucket both
  resolved, the run of the program is exactly this: it prints the five lines of the
  configuration (the heading, the resolved project, the location, the resolved bucket, an
  empty line), then the help, and ends with exit code 0. It calls nothing of the SDK.
\<close>

theorem c6_no_flags_help:
  assumes "\<not> args_create args" and "\<not> args_quicktest args" and "\<not> args_delete args"
    and "resolved_project args env" and "resolved_bucket args env"
  shows "main args env w =
           ([Print (wrench @ '' Configuration:''),
             Print (''   Project ID: '' @
                    format_opt (py_or (args_project_id args) (env ''GOOGLE_CLOUD_PROJECT''))),
             Print (''   Location: '' @ args_location args),
             Print (''   GCS Bucket: '' @
                    format_opt (py_or (args_bucket args) (env ''GOOGLE_CLOUD_STORAGE_BUCKET''))),
             Print [],
             PrintHelp],
            Exit 0)
       \<and> snd (main args env w) = Exit 0
       \<and> last (fst (main args env w)) = PrintHelp
       \<and> length (fst (main args env w)) = 6
       \<and> \<not> list_ex is_remote_call (fst (main args env w))"
  by (simp add: main_help [OF assms(4,5,1,2,3)] configuration_lines_def)

theorem c6_no_flags_help_witness:
  "\<not> args_create no_arguments \<and> \<not> args_quicktest no_arguments \<and> \<not> args_delete no_arguments
   \<and> resolved_project no_arguments configured_env \<and> resolved_bucket no_arguments configured_env
   \<and> main no_arguments configured_env quiet_world =
        ([Print (wrench @ '' Configuration:''),
          Print ''   Project ID: p1'',
          Print ''   Location: us-central1'',
          Print ''   GCS Bucket: b1'',
          Print [],
          PrintHelp],
         Exit 0)
   \<and> snd (main no_arguments configured_env quiet_world) = Exit 0
   \<and> last (fst (main no_arguments configured_env quiet_world)) = PrintHelp"
proof -
  have flags: "\<not> args_create no_arguments" "\<not> args_quicktest no_arguments"
    "\<not> args_delete no_arguments"
    by (simp_all add: no_arguments_def)
  have cfg: "resolved_project no_arguments configured_env"
    "resolved_bucket no_arguments configured_env"
    by (simp_all add: resolved_project_def resolved_bucket_def configured_env_def)
  have shown: "format_opt (py_or (args_project_id no_arguments) (configured_env ''GOOGLE_CLOUD_PROJECT'')) = ''p1''"
    "format_opt (py_or (args_bucket no_arguments) (configured_env ''GOOGLE_CLOUD_STORAGE_BUCKET'')) = ''b1''"
    "args_location no_arguments = ''us-central1''"
    by (simp_all add: py_or_def no_arguments_def configured_env_def)
  from c6_no_flags_help [OF flags cfg, of quiet_world] flags cfg show ?thesis
    by (simp add: shown)
qed

subsection \<open>C10: the configuration is checked before the command\<close>

text \<open>
  C10: with the project or the bucket unresolved, every invocation ends with exit code 1
  before its command is dispatched: the run does not depend on the command flags, on the
  resource id or on what the SDK would answer. This holds for \<open>--quicktest\<close> and
  \<open>--delete\<close> too, although neither operation uses the two values: with the
  configuration resolved and without \<open>--create\<close>, another project and another bucket
  change nothing in the run but the five lines that print the configuration.
\<close>

theorem c10_configuration_before_dispatch:
  "(\<not> resolved_project args env \<or> \<not> resolved_bucket args env \<longrightarrow>
      snd (main args env w) = Exit 1
      \<and> main args env w =
          main (args \<lparr> args_create := c, args_quicktest := q, args_delete := d,
                       args_resource_id := r \<rparr>) env w')
   \<and> (\<not> args_create args \<and> resolved_project args env \<and> resolved_bucket args env
       \<and> truthy p \<and> truthy b \<longrightarrow>
      snd (main (args \<lparr> args_project_id := p, args_bucket := b \<rparr>) env' w) = snd (main args env w)
      \<and> drop 5 (fst (main (args \<lparr> args_project_id := p, args_bucket := b \<rparr>) env' w))
          = drop 5 (fst (main args env w)))"
proof (intro conjI impI)
  let ?args' = "args \<lparr> args_create := c, args_quicktest := q, args_delete := d,
                       args_resource_id := r \<rparr>"
  assume unresolved: "\<not> resolved_project args env \<or> \<not> resolved_bucket args env"
  have same: "resolved_project ?args' env = resolved_project args env"
    "resolved_bucket ?args' env = resolved_bucket args env"
    by (simp_all add: resolved_project_def resolved_bucket_def)
  show "snd (main args env w) = Exit 1"
    using unresolved
    by (cases "resolved_project args env")
       (auto simp: main_unresolved_project main_unresolved_bucket)
  show "main args env w = main ?args' env w'"
  proof (cases "resolved_project args env")
    case False
    then show ?thesis
      using same by (simp add: main_unresolved_project)
  next
    case True
    with unresolved have "\<not> resolved_bucket args env"
      by simp
    with True show ?thesis
      using same by (simp add: main_unresolved_bucket)
  qed
next
  let ?args' = "args \<lparr> args_project_id := p, args_bucket := b \<rparr>"
  assume h: "\<not> args_create args \<and> resolved_project args env \<and> resolved_bucket args env
       \<and> truthy p \<and> truthy b"
  then have r: "resolved_project args env" "resolved_bucket args env"
    and r': "resolved_project ?args' env'" "resolved_bucket ?args' env'"
    and nc: "\<not> args_create args" "\<not> args_create ?args'"
    by (simp_all add: resolved_project_def resolved_bucket_def)
  consider (no_flag) "\<not> args_quicktest args" "\<not> args_delete args"
    | (no_id) "args_quicktest args \<or> args_delete args" "\<not> truthy (args_resource_id args)"
    | (test) "args_quicktest args" "truthy (args_resource_id args)"
    | (del) "\<not> args_quicktest args" "args_delete args" "truthy (args_resource_id args)"
    by blast
  then have "snd (main ?args' env' w) = snd (main args env w)
     \<and> drop 5 (fst (main ?args' env' w)) = drop 5 (fst (main args env w))"
  proof cases
    case no_flag
    then show ?thesis
      using main_help [OF r nc(1), of w] main_help [OF r' nc(2), of w]
      by (simp add: length_configuration_lines)
  next
    case no_id
    then show ?thesis
      using main_no_resource_id [OF r nc(1), of w] main_no_resource_id [OF r' nc(2), of w]
      by (simp add: length_configuration_lines)
  next
    case test
    then show ?thesis
      using main_quicktest [OF r nc(1), of w] main_quicktest [OF r' nc(2), of w]
      by (simp add: length_configuration_lines Let_def)
  next
    case del
    then show ?thesis
      using main_delete [OF r nc(1), of w] main_delete [OF r' nc(2), of w]
      by (simp add: length_configuration_lines Let_def)
  qed
  then show "snd (main ?args' env' w) = snd (main args env w)"
    and "drop 5 (fst (main ?args' env' w)) = drop 5 (fst (main args env w))"
    by simp_all
qed

theorem c10_configuration_before_dispatch_witness:
  "\<not> resolved_project quicktest_sample empty_env
   \<and> args_quicktest quicktest_sample
   \<and> snd (main quicktest_sample empty_env quiet_world) = Exit 1
   \<and> main quicktest_sample empty_env quiet_world = main no_arguments empty_env refusing_world
   \<and> \<not> args_create quicktest_sample
   \<and> resolved_project quicktest_sample configured_env
   \<and> resolved_bucket quicktest_sample configured_env
   \<and> truthy (Some ''p2'') \<and> truthy (Some ''b2'')
   \<and> snd (main (quicktest_sample \<lparr> args_project_id := Some ''p2'', args_bucket := Some ''b2'' \<rparr>)
             empty_env quiet_world)
       = snd (main quicktest_sample configured_env quiet_world)"
proof -
  have unresolved: "\<not> resolved_project quicktest_sample empty_env"
    by (simp add: resolved_project_def quicktest_sample_def no_arguments_def empty_env_def)
  have resolved: "resolved_project quicktest_sample configured_env"
    "resolved_bucket quicktest_sample configured_env"
    by (simp_all add: resolved_project_def resolved_bucket_def configured_env_def)
  have flags: "args_quicktest quicktest_sample" "\<not> args_create quicktest_sample"
    by (simp_all add: quicktest_sample_def no_arguments_def)
  have restored: "quicktest_sample \<lparr> args_create := False, args_quicktest := False,
                 args_delete := False, args_resource_id := None \<rparr> = no_arguments"
    by (simp add: quicktest_sample_def no_arguments_def)
  have nonempty: "truthy (Some ''p2'')" "truthy (Some ''b2'')"
    by simp_all
  note unresolved_run = c10_configuration_before_dispatch
         [where args = quicktest_sample and env = empty_env and w = quiet_world
            and c = False and q = False and d = False and r = None and w' = refusing_world,
          unfolded restored]
  note resolved_run = c10_configuration_before_dispatch
         [where args = quicktest_sample and env = configured_env and w = quiet_world
            and p = "Some ''p2''" and b = "Some ''b2''" and env' = empty_env]
  from unresolved_run resolved_run unresolved resolved flags nonempty
  show ?thesis
    by blast
qed

subsection \<open>C8: the exit code\<close>

lemma test_agent_engine_raises_iff:
  "isl (snd (test_agent_engine w rid q)) =
     (length (split_on CHR ''/'' rid) < 6 \<or> w_init w \<noteq> None \<or> w_client w \<noteq> None
      \<or> w_query_request w \<noteq> None)"
proof (cases "6 \<le> length (split_on CHR ''/'' rid)")
  case False
  then show ?thesis
    by (simp add: test_agent_engine_short)
next
  case True
  show ?thesis
  proof (cases "w_init w = None \<and> w_client w = None \<and> w_query_request w = None")
    case True
    with \<open>6 \<le> length (split_on CHR ''/'' rid)\<close> show ?thesis
      by (simp add: test_agent_engine_result)
  next
    case False
    with \<open>6 \<le> length (split_on CHR ''/'' rid)\<close> show ?thesis
      by (cases "w_init w"; cases "w_client w"; cases "w_query_request w")
         (simp_all add: test_agent_engine_parsed run_simps)
  qed
qed

lemma delete_agent_engine_raises_iff:
  "isl (snd (delete_agent_engine w rid)) =
     (length (split_on CHR ''/'' rid) < 6 \<or> w_init w \<noteq> None \<or> w_client w \<noteq> None)"
proof (cases "6 \<le> length (split_on CHR ''/'' rid)")
  case False
  then show ?thesis
    by (simp add: delete_agent_engine_short)
next
  case True
  show ?thesis
  proof (cases "w_init w = None \<and> w_client w = None")
    case True
    with \<open>6 \<le> length (split_on CHR ''/'' rid)\<close> show ?thesis
      by (simp add: delete_agent_engine_result)
  next
    case False
    with \<open>6 \<le> length (split_on CHR ''/'' rid)\<close> show ?thesis
      by (cases "w_init w"; cases "w_client w")
         (simp_all add: delete_agent_engine_parsed run_simps)
  qed
qed

lemma main_outcome:
  "snd (main args env w) =
     (if configuration_error args env then Exit 1
      else case selected_command args of
             Create \<Rightarrow> if create_raised args env w then Exit 1 else Exit 0
           | Help \<Rightarrow> Exit 0
           | _ \<Rightarrow> (case operation_result args w of
                     Inl e \<Rightarrow> Uncaught e
                   | Inr success \<Rightarrow> if success then Exit 0 else Exit 1))"
proof (cases "resolved_project args env \<and> resolved_bucket args env")
  case False
  then have "snd (main args env w) = Exit 1"
    by (cases "resolved_project args env")
       (auto simp: main_unresolved_project main_unresolved_bucket)
  with False show ?thesis
    by (auto simp: configuration_error_def)
next
  case True
  then have r: "resolved_project args env" "resolved_bucket args env"
    by simp_all
  consider (create) "args_create args"
    | (no_flag) "\<not> args_create args" "\<not> args_quicktest args" "\<not> args_delete args"
    | (no_id) "\<not> args_create args" "args_quicktest args \<or> args_delete args"
        "\<not> truthy (args_resource_id args)"
    | (test) "\<not> args_create args" "args_quicktest args" "truthy (args_resource_id args)"
    | (del) "\<not> args_create args" "\<not> args_quicktest args" "args_delete args"
        "truthy (args_resource_id args)"
    by blast
  then show ?thesis
  proof cases
    case create
    then show ?thesis
      using r main_create [OF r create, of w]
      by (simp add: configuration_error_def selected_command_def create_raised_def Let_def)
  next
    case no_flag
    then show ?thesis
      using r main_help [OF r no_flag, of w]
      by (simp add: configuration_error_def selected_command_def)
  next
    case no_id
    then show ?thesis
      using r main_no_resource_id [OF r no_id, of w]
      by (auto simp: configuration_error_def selected_command_def)
  next
    case test
    then show ?thesis
      using r main_quicktest [OF r test, of w]
      by (cases "snd (test_agent_engine w (format_opt (args_resource_id args)) default_test_query)")
         (simp_all add: configuration_error_def selected_command_def operation_result_def Let_def)
  next
    case del
    then show ?thesis
      using r main_delete [OF r del, of w]
      by (cases "snd (delete_agent_engine w (format_opt (args_resource_id args)))")
         (simp_all add: configuration_error_def selected_command_def operation_result_def Let_def)
  qed
qed

text \<open>
  C8, as stated: the exit code is 1 in exactly three cases, a configuration error, an
  exception of the create flow, a false result of test or delete. There is a fourth:
  \<open>--quicktest\<close> with a resource id of one segment is none of the three, yet the
  \<open>IndexError\<close> of the parsing leaves \<open>main\<close> uncaught and the process ends with status 1.
\<close>

theorem c8_uncaught_exception_exits_1:
  "snd (main quicktest_malformed configured_env quiet_world) = Uncaught IndexError
   \<and> exit_code (snd (main quicktest_malformed configured_env quiet_world)) = 1
   \<and> \<not> configuration_error quicktest_malformed configured_env
   \<and> \<not> create_raised quicktest_malformed configured_env quiet_world
   \<and> \<not> operation_returned_false quicktest_malformed quiet_world"
proof -
  have sel: "selected_command quicktest_malformed = Test"
    by (simp add: selected_command_def quicktest_malformed_def no_arguments_def)
  have rid: "args_resource_id quicktest_malformed = Some malformed_handle"
    by (simp add: quicktest_malformed_def)
  have cfg: "\<not> configuration_error quicktest_malformed configured_env"
    by (simp add: configuration_error_def resolved_project_def resolved_bucket_def
        configured_env_def sel rid malformed_handle_def)
  have res: "operation_result quicktest_malformed quiet_world = Inl IndexError"
    by (simp add: operation_result_def sel rid test_agent_engine_short malformed_handle_def)
  show ?thesis
    by (simp add: main_outcome cfg sel res create_raised_def operation_returned_false_def)
qed

text \<open>
  C8, amended: the exit code is 0 on success and on the display of the help, and 1 in
  exactly these cases: a configuration error (project, bucket, or the resource id of the
  test or delete command missing or empty), an exception of the create flow, a false
  result of test or delete, and an exception that leaves test or delete, which nothing in
  \<open>main\<close> catches. The last happens exactly when the resource id has fewer than six
  segments, or \<open>aiplatform.init\<close> or the construction of the client raises, or, for test,
  the construction of the request object raises.
\<close>

theorem c8_exit_code:
  "exit_code (snd (main args env w)) =
     (if configuration_error args env \<or> create_raised args env w
         \<or> operation_returned_false args w \<or> operation_raised args w
      then 1 else 0)
   \<and> (snd (main args env w) = Exit 0) =
       (\<not> configuration_error args env \<and>
        (selected_command args = Help
         \<or> (selected_command args = Create \<and> \<not> create_raised args env w)
         \<or> ((selected_command args = Test \<or> selected_command args = Delete)
             \<and> operation_result args w = Inr True)))
   \<and> (snd (main args env w) = Uncaught e) =
       (\<not> configuration_error args env
        \<and> (selected_command args = Test \<or> selected_command args = Delete)
        \<and> operation_result args w = Inl e)
   \<and> operation_raised args w =
       ((selected_command args = Test \<or> selected_command args = Delete)
        \<and> (length (split_on CHR ''/'' (format_opt (args_resource_id args))) < 6
           \<or> w_init w \<noteq> None \<or> w_client w \<noteq> None
           \<or> (selected_command args = Test \<and> w_query_request w \<noteq> None)))"
proof (intro conjI)
  show "exit_code (snd (main args env w)) =
     (if configuration_error args env \<or> create_raised args env w
         \<or> operation_returned_false args w \<or> operation_raised args w
      then 1 else 0)"
    by (cases "selected_command args"; cases "operation_result args w")
       (auto simp: main_outcome create_raised_def operation_returned_false_def
          operation_raised_def)
  show "(snd (main args env w) = Exit 0) =
       (\<not> configuration_error args env \<and>
        (selected_command args = Help
         \<or> (selected_command args = Create \<and> \<not> create_raised args env w)
         \<or> ((selected_command args = Test \<or> selected_command args = Delete)
             \<and> operation_result args w = Inr True)))"
    by (cases "selected_command args"; cases "operation_result args w")
       (auto simp: main_outcome)
  show "(snd (main args env w) = Uncaught e) =
       (\<not> configuration_error args env
        \<and> (selected_command args = Test \<or> selected_command args = Delete)
        \<and> operation_result args w = Inl e)"
    by (cases "selected_command args"; cases "operation_result args w")
       (auto simp: main_outcome)
  show "operation_raised args w =
       ((selected_command args = Test \<or> selected_command args = Delete)
        \<and> (length (split_on CHR ''/'' (format_opt (args_resource_id args))) < 6
           \<or> w_init w \<noteq> None \<or> w_client w \<noteq> None
           \<or> (selected_command args = Test \<and> w_query_request w \<noteq> None)))"
    by (cases "selected_command args")
       (simp_all add: operation_raised_def operation_result_def test_agent_engine_raises_iff
          delete_agent_engine_raises_iff del: not_None_eq)
qed

theorem c8_exit_code_witness:
  "operation_returned_false quicktest_sample refusing_world
   \<and> exit_code (snd (main quicktest_sample configured_env refusing_world)) = 1
   \<and> exit_code (snd (main no_arguments configured_env quiet_world)) = 0
   \<and> \<not> operation_raised quicktest_sample refusing_world
   \<and> w_query_request request_rejected_world
       = Some (ValueError ''Unknown field for QueryReasoningEngineRequest: query'')
   \<and> operation_raised quicktest_sample request_rejected_world
   \<and> exit_code (snd (main quicktest_sample configured_env request_rejected_world)) = 1"
proof -
  have sel: "selected_command quicktest_sample = Test" "selected_command no_arguments = Help"
    by (simp_all add: selected_command_def quicktest_sample_def no_arguments_def)
  have len: "6 \<le> length (split_on CHR ''/'' sample_handle)"
    by (simp add: sample_handle_def)
  have rid: "args_resource_id quicktest_sample = Some sample_handle"
    by (simp add: quicktest_sample_def)
  have world: "w_init refusing_world = None" "w_client refusing_world = None"
    "w_query_request refusing_world = None" "w_query refusing_world \<noteq> None"
    by (simp_all add: refusing_world_def quiet_world_def)
  have rejected: "w_query_request request_rejected_world
       = Some (ValueError ''Unknown field for QueryReasoningEngineRequest: query'')"
    by (simp add: request_rejected_world_def)
  have res: "operation_result quicktest_sample refusing_world = Inr False"
    by (simp add: operation_result_def sel rid test_agent_engine_result [OF len world(1,2,3)]
        world(4))
  have cfg: "\<not> configuration_error no_arguments configured_env"
    by (simp add: configuration_error_def resolved_project_def resolved_bucket_def
        configured_env_def sel)
  have returned: "operation_returned_false quicktest_sample refusing_world"
    and not_raised: "\<not> operation_raised quicktest_sample refusing_world"
    by (simp_all add: operation_returned_false_def operation_raised_def sel res)
  have quiet: "\<not> create_raised no_arguments configured_env quiet_world"
    "\<not> operation_returned_false no_arguments quiet_world"
    "\<not> operation_raised no_arguments quiet_world"
    by (simp_all add: create_raised_def operation_returned_false_def operation_raised_def sel)
  note refused = c8_exit_code [of quicktest_sample configured_env refusing_world]
  note helped = c8_exit_code [of no_arguments configured_env quiet_world]
  note escaped = c8_exit_code [of quicktest_sample configured_env request_rejected_world]
  have raised: "operation_raised quicktest_sample request_rejected_world"
    using escaped by (simp add: sel rejected)
  from refused helped escaped returned not_raised cfg quiet rejected raised
  show ?thesis
    by simp
qed

subsection \<open>The packager\<close>

lemma rglob_py_prefix: "rglob_py parent node = map ((@) parent) (rglob_py [] node)"
proof (induction node arbitrary: parent)
  case (FileN n)
  show ?case by simp
next
  case (DirN n entries)
  have below: "rglob_py (parent @ [n]) c = map ((@) parent) (rglob_py [n] c)"
    if "c \<in> set entries" for c
  proof -
    have "rglob_py (parent @ [n]) c = map ((@) (parent @ [n])) (rglob_py [] c)"
      by (rule DirN.IH [OF that])
    moreover have "rglob_py [n] c = map ((@) [n]) (rglob_py [] c)"
      by (rule DirN.IH [OF that])
    ultimately show ?thesis
      by simp
  qed
  have "concat (map (rglob_py (parent @ [n])) entries)
        = map ((@) parent) (concat (map (rglob_py [n]) entries))"
    using below by (simp add: map_concat cong: map_cong)
  then show ?case
    by simp
qed

lemma mset_rglob_entries:
  assumes "\<And>c. c \<in> set es \<Longrightarrow>
             mset (rglob_py q c)
             = mset (map fst (filter (\<lambda>(p, c). matches_py (node_name c)) (paths_below q c)))"
  shows "mset (map (\<lambda>c. path c) (filter (\<lambda>c. matches_py (node_name c)) es))
           + mset (concat (map (rglob_py q) es))
         = mset (map fst (filter (\<lambda>(p, c). matches_py (node_name c))
                   (concat (map (\<lambda>c. (path c, c) # paths_below q c) es))))"
  using assms
proof (induction es)
  case Nil
  show ?case by simp
next
  case (Cons e es)
  then have IH: "mset (map (\<lambda>c. path c) (filter (\<lambda>c. matches_py (node_name c)) es))
           + mset (concat (map (rglob_py q) es))
         = mset (map fst (filter (\<lambda>(p, c). matches_py (node_name c))
                   (concat (map (\<lambda>c. (path c, c) # paths_below q c) es))))"
    and e: "mset (rglob_py q e)
             = mset (map fst (filter (\<lambda>(p, c). matches_py (node_name c)) (paths_below q e)))"
    by simp_all
  show ?case
    using IH [symmetric] e by (simp add: ac_simps)
qed

lemma mset_rglob_py:
  "mset (rglob_py parent node)
   = mset (map fst (filter (\<lambda>(p, c). matches_py (node_name c)) (paths_below parent node)))"
proof (induction node arbitrary: parent)
  case (FileN n)
  show ?case by simp
next
  case (DirN n entries)
  show ?case
    using mset_rglob_entries [of entries "parent @ [n]" "\<lambda>c. parent @ [n, node_name c]"] DirN.IH
    by simp
qed

lemma zip_sources_below_root:
  "zip_sources root (map ((@) root) rels) = (map (\<lambda>rel. ZipWrite (root @ rel) rel) rels, Inr ())"
proof (induction rels)
  case Nil
  show ?case by (simp add: ret_def)
next
  case (Cons rel rels)
  have "relative_to (root @ rel) root = ret rel"
    by (simp add: relative_to_def)
  with Cons show ?case
    by (simp add: run_simps)
qed

lemma zip_configs_run:
  "zip_configs root entries cfs =
     (map (\<lambda>f. ZipWrite (root @ [f]) [f]) (filter (\<lambda>f. lookup_entry f entries \<noteq> None) cfs),
      Inr ())"
proof (induction cfs)
  case Nil
  show ?case by (simp add: ret_def)
next
  case (Cons f cfs)
  then show ?case
    by (cases "lookup_entry f entries") (simp_all add: run_simps del: not_None_eq)
qed

lemma lookup_entry_present:
  "(lookup_entry f entries \<noteq> None) = list_ex (\<lambda>c. node_name c = f) entries"
  by (auto simp: lookup_entry_def find_None_iff list_ex_iff)

text \<open>The package directory's matches, relative to the root.\<close>

lemma rglob_package_relative:
  "rglob_package root entries = map ((@) root) (rglob_package [] entries)"
  using rglob_py_prefix [of root]
  by (simp add: rglob_package_def split: option.splits)

lemma mset_rglob_package:
  "mset (rglob_package [] entries) = mset (spec_matching_paths entries)"
  by (simp add: rglob_package_def spec_matching_paths_def package_paths_def mset_rglob_py
      del: mset_map mset_filter split: option.splits)

lemma write_archive_run:
  "write_archive w =
     (map (\<lambda>rel. ZipWrite (w_root_dir w @ rel) rel) (rglob_package [] (w_root_entries w))
      @ map (\<lambda>f. ZipWrite (w_root_dir w @ [f]) [f]) (spec_present_metadata (w_root_entries w)),
      Inr ())"
proof -
  have "zip_sources (w_root_dir w) (rglob_package (w_root_dir w) (w_root_entries w))
        = (map (\<lambda>rel. ZipWrite (w_root_dir w @ rel) rel) (rglob_package [] (w_root_entries w)),
           Inr ())"
    by (subst rglob_package_relative) (rule zip_sources_below_root)
  then show ?thesis
    by (simp add: write_archive_def seq_def zip_configs_run spec_present_metadata_def
        lookup_entry_present del: not_None_eq)
qed

lemma archive_entries_append:
  "archive_entries (xs @ ys) = archive_entries xs @ archive_entries ys"
  by (induction xs rule: archive_entries.induct) simp_all

lemma archive_entries_writes:
  "archive_entries (map (\<lambda>x. ZipWrite (f x) (g x)) xs) = map (\<lambda>x. (f x, g x)) xs"
  by (induction xs) simp_all

lemma archive_entries_write_archive:
  "archive_entries (fst (write_archive w)) =
     map (\<lambda>rel. (w_root_dir w @ rel, rel)) (rglob_package [] (w_root_entries w))
     @ map (\<lambda>f. (w_root_dir w @ [f], [f])) (spec_present_metadata (w_root_entries w))"
  by (simp add: write_archive_run archive_entries_append archive_entries_writes)

lemma no_create_request_in_archive: "\<not> list_ex is_create_request (fst (write_archive w))"
  by (auto simp: write_archive_run list_ex_iff)

subsection \<open>C5: what the archive holds\<close>

text \<open>
  C5, as stated: with N source files, regular files named \<open>*.py\<close>, below the package
  directory and M metadata files present, the archive has exactly N + M entries. The
  traversal matches by name only: a directory named \<open>models.py\<close> in the package gives
  an entry, with no source file and no metadata file in the tree.
\<close>

theorem c5_directory_named_like_source:
  "length (archive_entries (fst (write_archive directory_named_py_world))) = 1
   \<and> length (spec_source_files (w_root_entries directory_named_py_world)) = 0
   \<and> length (spec_present_metadata (w_root_entries directory_named_py_world)) = 0"
  by (simp add: archive_entries_write_archive directory_named_py_world_def quiet_world_def
      rglob_package_def lookup_entry_def matches_py_def spec_source_files_def
      package_paths_def spec_present_metadata_def config_files_def)

text \<open>
  C5, amended: the packager never fails, and writes nothing but archive entries. With N
  the number of paths below the package directory whose name ends in \<open>.py\<close>, regular
  files and directories alike, and M the number of metadata file names present at the
  root, the archive has exactly N + M entries: one per such path, from the path below
  the root and under the path relative to the root, and one per metadata file, under its
  bare name. Where no directory is named \<open>*.py\<close>, N is the number of source files.
  Without the package directory the archive holds the metadata entries only. The archive
  that \<open>create_agent_engine\<close> writes is this one.
\<close>

theorem c5_archive_contents:
  "snd (write_archive w) = Inr ()
   \<and> length (archive_entries (fst (write_archive w))) = length (fst (write_archive w))
   \<and> mset (archive_entries (fst (write_archive w)))
       = mset (map (\<lambda>rel. (w_root_dir w @ rel, rel)) (spec_matching_paths (w_root_entries w)))
         + mset (map (\<lambda>f. (w_root_dir w @ [f], [f])) (spec_present_metadata (w_root_entries w)))
   \<and> length (archive_entries (fst (write_archive w)))
       = length (spec_matching_paths (w_root_entries w))
         + length (spec_present_metadata (w_root_entries w))
   \<and> ((\<forall>(p, c) \<in> set (package_paths (w_root_entries w)). matches_py (node_name c) \<longrightarrow> is_file c)
        \<longrightarrow> spec_matching_paths (w_root_entries w) = spec_source_files (w_root_entries w))
   \<and> (lookup_entry ''travel_concierge'' (w_root_entries w) = None \<longrightarrow>
        archive_entries (fst (write_archive w))
          = map (\<lambda>f. (w_root_dir w @ [f], [f])) (spec_present_metadata (w_root_entries w)))
   \<and> (w_init w = None \<longrightarrow>
        archive_entries (fst (create_agent_engine w env project_id location bucket_name display_name))
          = archive_entries (fst (write_archive w)))"
proof (intro conjI impI)
  show "snd (write_archive w) = Inr ()"
    by (simp add: write_archive_run)
  show "length (archive_entries (fst (write_archive w))) = length (fst (write_archive w))"
    by (simp add: archive_entries_write_archive) (simp add: write_archive_run)
  have sources: "mset (rglob_package [] (w_root_entries w))
                 = mset (spec_matching_paths (w_root_entries w))"
    by (rule mset_rglob_package)
  have "mset (map (\<lambda>rel. (w_root_dir w @ rel, rel)) (rglob_package [] (w_root_entries w)))
        = mset (map (\<lambda>rel. (w_root_dir w @ rel, rel)) (spec_matching_paths (w_root_entries w)))"
    using sources by (metis mset_map)
  then show "mset (archive_entries (fst (write_archive w)))
       = mset (map (\<lambda>rel. (w_root_dir w @ rel, rel)) (spec_matching_paths (w_root_entries w)))
         + mset (map (\<lambda>f. (w_root_dir w @ [f], [f])) (spec_present_metadata (w_root_entries w)))"
    by (simp only: archive_entries_write_archive mset_append)
  have "length (rglob_package [] (w_root_entries w))
        = length (spec_matching_paths (w_root_entries w))"
    using sources by (rule mset_eq_length)
  then show "length (archive_entries (fst (write_archive w)))
       = length (spec_matching_paths (w_root_entries w))
         + length (spec_present_metadata (w_root_entries w))"
    by (simp add: archive_entries_write_archive)
next
  assume "\<forall>(p, c) \<in> set (package_paths (w_root_entries w)). matches_py (node_name c) \<longrightarrow> is_file c"
  then have "filter (\<lambda>(p, c). matches_py (node_name c)) (package_paths (w_root_entries w))
             = filter (\<lambda>(p, c). is_file c \<and> matches_py (node_name c))
                 (package_paths (w_root_entries w))"
    by (intro filter_cong) auto
  then show "spec_matching_paths (w_root_entries w) = spec_source_files (w_root_entries w)"
    by (simp add: spec_matching_paths_def spec_source_files_def)
next
  assume "lookup_entry ''travel_concierge'' (w_root_entries w) = None"
  then show "archive_entries (fst (write_archive w))
          = map (\<lambda>f. (w_root_dir w @ [f], [f])) (spec_present_metadata (w_root_entries w))"
    by (simp add: archive_entries_write_archive rglob_package_def)
next
  assume init: "w_init w = None"
  obtain evs where wa: "write_archive w = (evs, Inr ())"
    by (simp add: write_archive_run)
  show "archive_entries (fst (create_agent_engine w env project_id location bucket_name display_name))
          = archive_entries (fst (write_archive w))"
    by (cases "w_upload w"; cases "w_client w"; cases "w_engine w"; cases "w_create w";
        cases "w_wait w")
       (simp_all add: create_agent_engine_def upload_to_gcs_def init wa run_simps Let_def
          archive_entries_append)
qed

theorem c5_archive_contents_witness:
  "length (archive_entries (fst (write_archive quiet_world))) = 4
   \<and> spec_source_files (w_root_entries quiet_world)
       = [[''travel_concierge'', ''__init__.py''], [''travel_concierge'', ''agent.py''],
          [''travel_concierge'', ''tools'', ''search.py'']]
   \<and> spec_present_metadata (w_root_entries quiet_world) = [''README.md'']
   \<and> lookup_entry ''travel_concierge'' (w_root_entries no_package_world) = None
   \<and> archive_entries (fst (write_archive no_package_world))
       = [([''repo'', ''README.md''], [''README.md''])]
   \<and> w_init quiet_world = None
   \<and> length (archive_entries (fst (create_agent_engine quiet_world empty_env ''p1''
                 ''us-central1'' ''b1'' ''Travel Concierge Agent''))) = 4"
proof -
  have tree: "w_root_entries quiet_world = sample_tree" "w_root_dir quiet_world = [''repo'']"
    "w_init quiet_world = None"
    "w_root_entries no_package_world = [FileN ''README.md'']"
    "w_root_dir no_package_world = [''repo'']"
    by (simp_all add: quiet_world_def no_package_world_def)
  have paths: "package_paths sample_tree =
     [([''travel_concierge'', ''__init__.py''], FileN ''__init__.py''),
      ([''travel_concierge'', ''agent.py''], FileN ''agent.py''),
      ([''travel_concierge'', ''tools''], DirN ''tools'' [FileN ''search.py'', FileN ''notes.txt'']),
      ([''travel_concierge'', ''tools'', ''search.py''], FileN ''search.py''),
      ([''travel_concierge'', ''tools'', ''notes.txt''], FileN ''notes.txt'')]"
    by (simp add: package_paths_def sample_tree_def lookup_entry_def)
  have files: "spec_source_files sample_tree
       = [[''travel_concierge'', ''__init__.py''], [''travel_concierge'', ''agent.py''],
          [''travel_concierge'', ''tools'', ''search.py'']]"
    and matching: "spec_matching_paths sample_tree
       = [[''travel_concierge'', ''__init__.py''], [''travel_concierge'', ''agent.py''],
          [''travel_concierge'', ''tools'', ''search.py'']]"
    by (simp_all add: spec_source_files_def spec_matching_paths_def paths matches_py_def)
  have metadata: "spec_present_metadata sample_tree = [''README.md'']"
    "spec_present_metadata [FileN ''README.md''] = [''README.md'']"
    by (simp_all add: spec_present_metadata_def config_files_def sample_tree_def)
  have absent: "lookup_entry ''travel_concierge'' [FileN ''README.md''] = None"
    by (simp add: lookup_entry_def)
  from c5_archive_contents [of quiet_world empty_env "''p1''" "''us-central1''" "''b1''"
         "''Travel Concierge Agent''"]
       c5_archive_contents [of no_package_world]
  show ?thesis
    by (simp add: tree files matching metadata absent)
qed

subsection \<open>C3: the temporary archive is deleted before the resource is requested\<close>

text \<open>
  What \<open>create_agent_engine\<close> does up to the upload, when \<open>aiplatform.init\<close> has returned.
\<close>

lemma create_agent_engine_upload_raises:
  assumes "w_init w = None" and "w_upload w = Some e"
  shows "create_agent_engine w env project_id location bucket_name display_name =
     ([AiplatformInit project_id location,
       Print (package_sign @ '' Uploading agent code to Google Cloud Storage...''),
       TempFileCreate (w_tmp_name w)]
      @ fst (write_archive w)
      @ [Upload (get_credentials env (w_path_exists w)) bucket_name (w_tmp_name w)
           (''agents/travel-concierge-'' @ str_nat (w_time w) @ ''.zip'')],
      Inl e)"
proof -
  obtain evs where wa: "write_archive w = (evs, Inr ())"
    by (simp add: write_archive_run)
  show ?thesis
    by (simp add: create_agent_engine_def upload_to_gcs_def assms wa run_simps Let_def)
qed

lemma create_agent_engine_issues_request:
  assumes "w_init w = None" and "w_upload w = None" and "w_client w = None"
    and "w_engine w = None"
  shows "list_ex is_create_request
           (fst (create_agent_engine w env project_id location bucket_name display_name))"
proof -
  obtain evs where wa: "write_archive w = (evs, Inr ())"
    by (simp add: write_archive_run)
  show ?thesis
    by (cases "w_create w"; cases "w_wait w")
       (simp_all add: create_agent_engine_def upload_to_gcs_def assms wa run_simps Let_def)
qed

text \<open>
  C3: when \<open>aiplatform.init\<close> and the upload have returned, the run of
  \<open>create_agent_engine\<close> is: the steps up to the archive, the upload of the temporary
  file, \<open>os.unlink\<close> of that same file, and then the rest. No request to create the
  resource comes before the unlink, and the file is unlinked once. The request is made
  after it, exactly when the client and the description of the resource can be
  constructed. Nothing here depends on what the request or the wait for it answer.
\<close>

theorem c3_archive_deleted_before_create_request:
  assumes "w_init w = None" and "w_upload w = None"
  shows "\<exists>post.
     fst (create_agent_engine w env project_id location bucket_name display_name) =
       ([AiplatformInit project_id location,
         Print (package_sign @ '' Uploading agent code to Google Cloud Storage...''),
         TempFileCreate (w_tmp_name w)]
        @ fst (write_archive w))
       @ [Upload (get_credentials env (w_path_exists w)) bucket_name (w_tmp_name w)
            (''agents/travel-concierge-'' @ str_nat (w_time w) @ ''.zip''),
          Unlink (w_tmp_name w)]
       @ post
     \<and> \<not> list_ex is_create_request
           ([AiplatformInit project_id location,
             Print (package_sign @ '' Uploading agent code to Google Cloud Storage...''),
             TempFileCreate (w_tmp_name w)]
            @ fst (write_archive w))
     \<and> Unlink (w_tmp_name w) \<notin> set post
     \<and> list_ex is_create_request post = (w_client w = None \<and> w_engine w = None)"
proof -
  obtain evs where wa: "write_archive w = (evs, Inr ())"
    by (simp add: write_archive_run)
  have quiet: "\<not> list_ex is_create_request evs"
    using no_create_request_in_archive [of w] by (simp add: wa)
  show ?thesis
    using quiet
    by (cases "w_client w"; cases "w_engine w"; cases "w_create w"; cases "w_wait w")
       (simp_all add: create_agent_engine_def upload_to_gcs_def assms wa run_simps Let_def)
qed

theorem c3_archive_deleted_before_create_request_witness:
  "w_init refusing_world = None \<and> w_upload refusing_world = None
   \<and> w_create refusing_world = Some (SdkError ''quota exceeded'')
   \<and> (\<exists>post.
     fst (create_agent_engine refusing_world empty_env ''p1'' ''us-central1'' ''b1'' ''Agent'') =
       ([AiplatformInit ''p1'' ''us-central1'',
         Print (package_sign @ '' Uploading agent code to Google Cloud Storage...''),
         TempFileCreate ''/tmp/tmp0.zip'']
        @ fst (write_archive refusing_world))
       @ [Upload ApplicationDefault ''b1'' ''/tmp/tmp0.zip'' ''agents/travel-concierge-17.zip'',
          Unlink ''/tmp/tmp0.zip'']
       @ post
     \<and> Unlink ''/tmp/tmp0.zip'' \<notin> set post
     \<and> list_ex is_create_request post)
   \<and> w_init engine_rejected_world = None \<and> w_upload engine_rejected_world = None
   \<and> w_engine engine_rejected_world = Some (ValueError ''Unknown field for ReasoningEngine: spec'')
   \<and> (\<exists>post.
     fst (create_agent_engine engine_rejected_world empty_env ''p1'' ''us-central1'' ''b1'' ''Agent'') =
       ([AiplatformInit ''p1'' ''us-central1'',
         Print (package_sign @ '' Uploading agent code to Google Cloud Storage...''),
         TempFileCreate ''/tmp/tmp0.zip'']
        @ fst (write_archive engine_rejected_world))
       @ [Upload ApplicationDefault ''b1'' ''/tmp/tmp0.zip'' ''agents/travel-concierge-17.zip'',
          Unlink ''/tmp/tmp0.zip'']
       @ post
     \<and> Unlink ''/tmp/tmp0.zip'' \<notin> set post
     \<and> \<not> list_ex is_create_request post)"
proof -
  have world: "w_init refusing_world = None" "w_upload refusing_world = None"
    "w_client refusing_world = None" "w_engine refusing_world = None"
    "w_create refusing_world = Some (SdkError ''quota exceeded'')"
    "w_tmp_name refusing_world = ''/tmp/tmp0.zip''" "w_time refusing_world = 17"
    "w_path_exists refusing_world = no_file_exists"
    by (simp_all add: refusing_world_def quiet_world_def)
  have rejected: "w_init engine_rejected_world = None" "w_upload engine_rejected_world = None"
    "w_client engine_rejected_world = None"
    "w_engine engine_rejected_world = Some (ValueError ''Unknown field for ReasoningEngine: spec'')"
    "w_tmp_name engine_rejected_world = ''/tmp/tmp0.zip''" "w_time engine_rejected_world = 17"
    "w_path_exists engine_rejected_world = no_file_exists"
    by (simp_all add: engine_rejected_world_def quiet_world_def)
  have creds: "get_credentials empty_env no_file_exists = ApplicationDefault"
    by (simp add: get_credentials_def no_file_exists_def)
  have stamp: "str_nat 17 = ''17''"
    by (simp add: str_nat.simps)
  have first: "\<exists>post.
     fst (create_agent_engine refusing_world empty_env ''p1'' ''us-central1'' ''b1'' ''Agent'') =
       ([AiplatformInit ''p1'' ''us-central1'',
         Print (package_sign @ '' Uploading agent code to Google Cloud Storage...''),
         TempFileCreate ''/tmp/tmp0.zip'']
        @ fst (write_archive refusing_world))
       @ [Upload ApplicationDefault ''b1'' ''/tmp/tmp0.zip'' ''agents/travel-concierge-17.zip'',
          Unlink ''/tmp/tmp0.zip'']
       @ post
     \<and> Unlink ''/tmp/tmp0.zip'' \<notin> set post
     \<and> list_ex is_create_request post"
    using c3_archive_deleted_before_create_request [OF world(1,2), of empty_env "''p1''"
         "''us-central1''" "''b1''" "''Agent''"]
    by (simp add: world creds stamp) blast
  have second: "\<exists>post.
     fst (create_agent_engine engine_rejected_world empty_env ''p1'' ''us-central1'' ''b1'' ''Agent'') =
       ([AiplatformInit ''p1'' ''us-central1'',
         Print (package_sign @ '' Uploading agent code to Google Cloud Storage...''),
         TempFileCreate ''/tmp/tmp0.zip'']
        @ fst (write_archive engine_rejected_world))
       @ [Upload ApplicationDefault ''b1'' ''/tmp/tmp0.zip'' ''agents/travel-concierge-17.zip'',
          Unlink ''/tmp/tmp0.zip'']
       @ post
     \<and> Unlink ''/tmp/tmp0.zip'' \<notin> set post
     \<and> \<not> list_ex is_create_request post"
    using c3_archive_deleted_before_create_request [OF rejected(1,2), of empty_env "''p1''"
         "''us-central1''" "''b1''" "''Agent''"]
    by (simp add: rejected creds stamp) blast
  from first second show ?thesis
    by (simp add: world rejected)
qed

subsection \<open>C7: credentials\<close>

text \<open>
  C7, as stated: without \<open>GOOGLE_APPLICATION_CREDENTIALS\<close> the ambient default
  credentials are used. Not always: the path defaults to \<open>credentials.json\<close>, and when
  a file of that name exists it is loaded as a service account key.
\<close>

theorem c7_default_credentials_file:
  "empty_env ''GOOGLE_APPLICATION_CREDENTIALS'' = None
   \<and> get_credentials empty_env only_credentials_json_exists = ServiceAccountFile ''credentials.json''"
  by (simp add: get_credentials_def getenv_default_def empty_env_def
      only_credentials_json_exists_def)

text \<open>
  C7, amended: the path of the credentials file is the value of
  \<open>GOOGLE_APPLICATION_CREDENTIALS\<close>, or \<open>credentials.json\<close> when the variable is absent.
  When a file exists at that path the credentials are loaded from it; when none does,
  whether the variable is set or not, \<open>get_credentials\<close> returns \<open>None\<close> and the ambient
  default credentials are used. The upload is made with these credentials.
\<close>

theorem c7_credential_resolution:
  "(env ''GOOGLE_APPLICATION_CREDENTIALS'' = Some p \<and> path_exists p \<longrightarrow>
      get_credentials env path_exists = ServiceAccountFile p)
   \<and> (env ''GOOGLE_APPLICATION_CREDENTIALS'' = Some p \<and> \<not> path_exists p \<longrightarrow>
      get_credentials env path_exists = ApplicationDefault)
   \<and> (env ''GOOGLE_APPLICATION_CREDENTIALS'' = None \<and> path_exists ''credentials.json'' \<longrightarrow>
      get_credentials env path_exists = ServiceAccountFile ''credentials.json'')
   \<and> (env ''GOOGLE_APPLICATION_CREDENTIALS'' = None \<and> \<not> path_exists ''credentials.json'' \<longrightarrow>
      get_credentials env path_exists = ApplicationDefault)
   \<and> fst (upload_to_gcs w env bucket_name local_path gcs_path)
       = [Upload (get_credentials env (w_path_exists w)) bucket_name local_path gcs_path]"
  by (cases "w_upload w")
     (simp_all add: get_credentials_def getenv_default_def upload_to_gcs_def run_simps)

theorem c7_credential_resolution_witness:
  "key_file_env ''GOOGLE_APPLICATION_CREDENTIALS'' = Some ''/keys/sa.json''
   \<and> only_key_file_exists ''/keys/sa.json''
   \<and> get_credentials key_file_env only_key_file_exists = ServiceAccountFile ''/keys/sa.json''
   \<and> empty_env ''GOOGLE_APPLICATION_CREDENTIALS'' = None
   \<and> \<not> no_file_exists ''credentials.json''
   \<and> get_credentials empty_env no_file_exists = ApplicationDefault"
proof -
  have set: "key_file_env ''GOOGLE_APPLICATION_CREDENTIALS'' = Some ''/keys/sa.json''"
    "only_key_file_exists ''/keys/sa.json''"
    by (simp_all add: key_file_env_def only_key_file_exists_def)
  have unset: "empty_env ''GOOGLE_APPLICATION_CREDENTIALS'' = None"
    "\<not> no_file_exists ''credentials.json''"
    by (simp_all add: empty_env_def no_file_exists_def)
  from c7_credential_resolution [of key_file_env "''/keys/sa.json''" only_key_file_exists]
       c7_credential_resolution [of empty_env _ no_file_exists]
       set unset
  show ?thesis
    by simp
qed

subsection \<open>The events of each command\<close>

lemma only_command_append:
  "only_command c (xs @ ys) = (only_command c xs \<and> only_command c ys)"
  by (simp add: only_command_def)

lemma only_command_seq:
  assumes "only_command c (fst m)" and "\<And>x. only_command c (fst (f x))"
  shows "only_command c (fst (seq m f))"
  using assms by (cases "snd m") (simp_all add: fst_seq only_command_append)

lemma only_command_try_except:
  assumes "only_command c (fst m)" and "\<And>e. only_command c (fst (h e))"
  shows "only_command c (fst (try_except m h))"
  using assms by (cases "snd m") (simp_all add: fst_try_except only_command_append)

lemma only_command_basic:
  "only_command c (fst (ret x))"
  "only_command c (fst (raise_exn e))"
  "only_command c (fst (emit ev)) = (command_of_event ev = None \<or> command_of_event ev = Some c)"
  "only_command c (fst (sdk_call ev r)) = (command_of_event ev = None \<or> command_of_event ev = Some c)"
  by (simp_all add: only_command_def ret_def raise_exn_def emit_def sdk_call_def)

lemma only_command_py_index: "only_command c (fst (py_index xs i))"
  by (simp add: py_index_def only_command_basic)

lemma only_command_print_chunks: "only_command c (fst (print_chunks cs err))"
  by (induction cs)
     (auto intro!: only_command_seq simp: only_command_basic split: option.splits)

lemma only_command_test: "only_command Test (fst (test_agent_engine w rid q))"
  unfolding test_agent_engine_def Let_def
  by (intro only_command_seq only_command_try_except only_command_py_index
        only_command_print_chunks)
     (simp_all add: only_command_basic)

lemma only_command_delete: "only_command Delete (fst (delete_agent_engine w rid))"
  unfolding delete_agent_engine_def Let_def
  by (intro only_command_seq only_command_try_except only_command_py_index)
     (simp_all add: only_command_basic)

lemma only_command_zip_sources: "only_command Create (fst (zip_sources root ps))"
  by (induction ps)
     (auto intro!: only_command_seq simp: only_command_basic relative_to_def)

lemma only_command_zip_configs: "only_command Create (fst (zip_configs root entries cfs))"
  by (induction cfs)
     (auto intro!: only_command_seq simp: only_command_basic simp del: not_None_eq)

lemma only_command_create:
  "only_command Create (fst (create_agent_engine w env project_id location bucket_name display_name))"
  unfolding create_agent_engine_def Let_def upload_to_gcs_def write_archive_def
  by (intro only_command_seq only_command_zip_sources only_command_zip_configs)
     (simp_all add: only_command_basic)

lemma only_command_configuration_lines: "only_command c (configuration_lines args env)"
  by (simp add: configuration_lines_def only_command_def)

lemma only_command_main: "only_command (selected_command args) (fst (main args env w))"
proof (cases "resolved_project args env \<and> resolved_bucket args env")
  case False
  then show ?thesis
    by (cases "resolved_project args env")
       (auto simp: main_unresolved_project main_unresolved_bucket only_command_def)
next
  case True
  then have r: "resolved_project args env" "resolved_bucket args env"
    by simp_all
  consider (create) "args_create args"
    | (no_flag) "\<not> args_create args" "\<not> args_quicktest args" "\<not> args_delete args"
    | (no_id) "\<not> args_create args" "args_quicktest args \<or> args_delete args"
        "\<not> truthy (args_resource_id args)"
    | (test) "\<not> args_create args" "args_quicktest args" "truthy (args_resource_id args)"
    | (del) "\<not> args_create args" "\<not> args_quicktest args" "args_delete args"
        "truthy (args_resource_id args)"
    by blast
  then show ?thesis
  proof cases
    case create
    have "only_command Create
            (case r of Inr resource_id \<Rightarrow>
               [Print ([CHR 0x0A] @ party_popper @ '' Deployment successful!''),
                Print (clipboard @ '' Resource ID: '' @ resource_id),
                Print ([CHR 0x0A] @ ''To test the agent, run:''),
                Print (''python deployment/deploy.py --quicktest --resource_id='' @ resource_id)]
             | Inl e \<Rightarrow> [Print (cross_mark @ '' Error creating agent: '' @ exn_str e)])"
      for r :: "exn + string"
      by (cases r) (simp_all add: only_command_def)
    with create show ?thesis
      by (simp add: main_create [OF r create] selected_command_def Let_def only_command_append
          only_command_configuration_lines only_command_create)
  next
    case no_flag
    then show ?thesis
      by (simp add: main_help [OF r no_flag] selected_command_def only_command_append
          only_command_configuration_lines)
         (simp add: only_command_def)
  next
    case no_id
    then show ?thesis
      by (simp add: main_no_resource_id [OF r no_id] only_command_append
          only_command_configuration_lines)
         (simp add: only_command_def)
  next
    case test
    then show ?thesis
      by (simp add: main_quicktest [OF r test] selected_command_def Let_def only_command_append
          only_command_configuration_lines only_command_test)
  next
    case del
    then show ?thesis
      by (simp add: main_delete [OF r del] selected_command_def Let_def only_command_append
          only_command_configuration_lines only_command_delete)
  qed
qed

subsection \<open>C9: more than one command flag\<close>

text \<open>
  C9: several command flags together are not rejected. With \<open>--create\<close> the run is the
  run of \<open>--create\<close> alone, whatever \<open>--quicktest\<close> and \<open>--delete\<close> are; without
  \<open>--create\<close> and with \<open>--quicktest\<close> it is the run of \<open>--quicktest\<close> alone, whatever
  \<open>--delete\<close> is. In every run, the events that belong to one command all belong to the
  command that this precedence selects. And that command does run: with the configuration
  resolved (and, for test and delete, a resource id given), the run of \<open>main\<close> is the
  lines of the configuration followed by the whole run of \<open>create_agent_engine\<close>, of
  \<open>test_agent_engine\<close> or of \<open>delete_agent_engine\<close> on the arguments of the command
  line, and the exit code follows from the result of that one operation.
\<close>

theorem c9_flag_precedence:
  "(args_create args \<longrightarrow>
      main args env w = main (args \<lparr> args_quicktest := False, args_delete := False \<rparr>) env w
      \<and> only_command Create (fst (main args env w)))
   \<and> (\<not> args_create args \<and> args_quicktest args \<longrightarrow>
      main args env w = main (args \<lparr> args_delete := False \<rparr>) env w
      \<and> only_command Test (fst (main args env w)))
   \<and> (\<not> args_create args \<and> \<not> args_quicktest args \<and> args_delete args \<longrightarrow>
      only_command Delete (fst (main args env w)))
   \<and> (resolved_project args env \<and> resolved_bucket args env \<and> args_create args \<longrightarrow>
      main args env w =
        (let r = create_agent_engine w env
                   (format_opt (py_or (args_project_id args) (env ''GOOGLE_CLOUD_PROJECT'')))
                   (args_location args)
                   (format_opt (py_or (args_bucket args) (env ''GOOGLE_CLOUD_STORAGE_BUCKET'')))
                   (args_display_name args)
         in (configuration_lines args env @ fst r @
             (case snd r of
                Inr resource_id \<Rightarrow>
                  [Print ([CHR 0x0A] @ party_popper @ '' Deployment successful!''),
                   Print (clipboard @ '' Resource ID: '' @ resource_id),
                   Print ([CHR 0x0A] @ ''To test the agent, run:''),
                   Print (''python deployment/deploy.py --quicktest --resource_id='' @ resource_id)]
              | Inl e \<Rightarrow> [Print (cross_mark @ '' Error creating agent: '' @ exn_str e)]),
             if isl (snd r) then Exit 1 else Exit 0)))
   \<and> (resolved_project args env \<and> resolved_bucket args env \<and> \<not> args_create args
       \<and> args_quicktest args \<and> truthy (args_resource_id args) \<longrightarrow>
      main args env w =
        (let r = test_agent_engine w (format_opt (args_resource_id args)) default_test_query
         in (configuration_lines args env @ fst r,
             case snd r of Inl e \<Rightarrow> Uncaught e
                         | Inr success \<Rightarrow> if \<not> success then Exit 1 else Exit 0)))
   \<and> (resolved_project args env \<and> resolved_bucket args env \<and> \<not> args_create args
       \<and> \<not> args_quicktest args \<and> args_delete args \<and> truthy (args_resource_id args) \<longrightarrow>
      main args env w =
        (let r = delete_agent_engine w (format_opt (args_resource_id args))
         in (configuration_lines args env @ fst r,
             case snd r of Inl e \<Rightarrow> Uncaught e
                         | Inr success \<Rightarrow> if \<not> success then Exit 1 else Exit 0)))"
proof (intro conjI impI)
  assume "args_create args"
  then show "main args env w = main (args \<lparr> args_quicktest := False, args_delete := False \<rparr>) env w"
    and "only_command Create (fst (main args env w))"
    using only_command_main [of args env w] by (simp_all add: main_def Let_def selected_command_def)
next
  assume "\<not> args_create args \<and> args_quicktest args"
  then show "main args env w = main (args \<lparr> args_delete := False \<rparr>) env w"
    and "only_command Test (fst (main args env w))"
    using only_command_main [of args env w] by (simp_all add: main_def Let_def selected_command_def)
next
  assume "\<not> args_create args \<and> \<not> args_quicktest args \<and> args_delete args"
  then show "only_command Delete (fst (main args env w))"
    using only_command_main [of args env w] by (simp add: selected_command_def)
next
  assume "resolved_project args env \<and> resolved_bucket args env \<and> args_create args"
  then have h: "resolved_project args env" "resolved_bucket args env" "args_create args"
    by simp_all
  show "main args env w =
        (let r = create_agent_engine w env
                   (format_opt (py_or (args_project_id args) (env ''GOOGLE_CLOUD_PROJECT'')))
                   (args_location args)
                   (format_opt (py_or (args_bucket args) (env ''GOOGLE_CLOUD_STORAGE_BUCKET'')))
                   (args_display_name args)
         in (configuration_lines args env @ fst r @
             (case snd r of
                Inr resource_id \<Rightarrow>
                  [Print ([CHR 0x0A] @ party_popper @ '' Deployment successful!''),
                   Print (clipboard @ '' Resource ID: '' @ resource_id),
                   Print ([CHR 0x0A] @ ''To test the agent, run:''),
                   Print (''python deployment/deploy.py --quicktest --resource_id='' @ resource_id)]
              | Inl e \<Rightarrow> [Print (cross_mark @ '' Error creating agent: '' @ exn_str e)]),
             if isl (snd r) then Exit 1 else Exit 0))"
    by (rule main_create [OF h])
next
  assume "resolved_project args env \<and> resolved_bucket args env \<and> \<not> args_create args
       \<and> args_quicktest args \<and> truthy (args_resource_id args)"
  then have h: "resolved_project args env" "resolved_bucket args env" "\<not> args_create args"
    "args_quicktest args" "truthy (args_resource_id args)"
    by simp_all
  show "main args env w =
        (let r = test_agent_engine w (format_opt (args_resource_id args)) default_test_query
         in (configuration_lines args env @ fst r,
             case snd r of Inl e \<Rightarrow> Uncaught e
                         | Inr success \<Rightarrow> if \<not> success then Exit 1 else Exit 0))"
    by (rule main_quicktest [OF h])
next
  assume "resolved_project args env \<and> resolved_bucket args env \<and> \<not> args_create args
       \<and> \<not> args_quicktest args \<and> args_delete args \<and> truthy (args_resource_id args)"
  then have h: "resolved_project args env" "resolved_bucket args env" "\<not> args_create args"
    "\<not> args_quicktest args" "args_delete args" "truthy (args_resource_id args)"
    by simp_all
  show "main args env w =
        (let r = delete_agent_engine w (format_opt (args_resource_id args))
         in (configuration_lines args env @ fst r,
             case snd r of Inl e \<Rightarrow> Uncaught e
                         | Inr success \<Rightarrow> if \<not> success then Exit 1 else Exit 0))"
    by (rule main_delete [OF h])
qed

theorem c9_flag_precedence_witness:
  "args_create all_flags \<and> args_quicktest all_flags \<and> args_delete all_flags
   \<and> resolved_project all_flags configured_env \<and> resolved_bucket all_flags configured_env
   \<and> main all_flags configured_env quiet_world
       = main (all_flags \<lparr> args_quicktest := False, args_delete := False \<rparr>) configured_env quiet_world
   \<and> list_ex is_create_request (fst (main all_flags configured_env quiet_world))
   \<and> QueryRequest sample_handle default_test_query
        \<notin> set (fst (main all_flags configured_env quiet_world))
   \<and> DeleteRequest sample_handle \<notin> set (fst (main all_flags configured_env quiet_world))
   \<and> snd (main all_flags configured_env quiet_world) = Exit 0
   \<and> \<not> args_create quicktest_and_delete \<and> args_quicktest quicktest_and_delete
   \<and> args_delete quicktest_and_delete \<and> truthy (args_resource_id quicktest_and_delete)
   \<and> main quicktest_and_delete configured_env quiet_world
       = main (quicktest_and_delete \<lparr> args_delete := False \<rparr>) configured_env quiet_world
   \<and> QueryRequest sample_handle default_test_query
        \<in> set (fst (main quicktest_and_delete configured_env quiet_world))
   \<and> DeleteRequest sample_handle \<notin> set (fst (main quicktest_and_delete configured_env quiet_world))
   \<and> snd (main quicktest_and_delete configured_env quiet_world) = Exit 0"
proof -
  have flags: "args_create all_flags" "args_quicktest all_flags" "args_delete all_flags"
    "\<not> args_create quicktest_and_delete" "args_quicktest quicktest_and_delete"
    "args_delete quicktest_and_delete"
    "args_resource_id quicktest_and_delete = Some sample_handle"
    by (simp_all add: all_flags_def quicktest_and_delete_def no_arguments_def)
  have cfg: "resolved_project all_flags configured_env" "resolved_bucket all_flags configured_env"
    "resolved_project quicktest_and_delete configured_env"
    "resolved_bucket quicktest_and_delete configured_env"
    by (simp_all add: resolved_project_def resolved_bucket_def configured_env_def)
  have nonempty: "truthy (Some sample_handle)"
    by (simp add: sample_handle_def)
  then have given: "truthy (args_resource_id quicktest_and_delete)"
    by (simp add: flags)
  have world: "w_init quiet_world = None" "w_upload quiet_world = None"
    "w_client quiet_world = None" "w_engine quiet_world = None" "w_create quiet_world = None"
    "w_wait quiet_world = None" "w_query_request quiet_world = None"
    "w_query quiet_world = None" "w_iter_error quiet_world = None"
    by (simp_all add: quiet_world_def)
  have len: "6 \<le> length (split_on CHR ''/'' sample_handle)"
    by (simp add: sample_handle_def)
  note create_run = c9_flag_precedence [of all_flags configured_env quiet_world]
  note test_run = c9_flag_precedence [of quicktest_and_delete configured_env quiet_world]
  have no_query: "QueryRequest sample_handle default_test_query \<notin> set t"
    and no_deletion: "DeleteRequest sample_handle \<notin> set t" if "only_command Create t" for t
    using that by (auto simp: only_command_def list_all_iff)
  have no_deletion': "DeleteRequest sample_handle \<notin> set t" if "only_command Test t" for t
    using that by (auto simp: only_command_def list_all_iff)
  have created: "snd (create_agent_engine quiet_world env p l b d) = Inr (w_resource_name quiet_world)"
    for env p l b d
  proof -
    obtain evs where wa: "write_archive quiet_world = (evs, Inr ())"
      by (simp add: write_archive_run)
    show ?thesis
      by (simp add: create_agent_engine_def upload_to_gcs_def world wa run_simps Let_def)
  qed
  have tested: "snd (test_agent_engine quiet_world sample_handle default_test_query) = Inr True"
    by (simp add: test_agent_engine_result [OF len world(1,3,7)] world)
  define r where "r = create_agent_engine quiet_world configured_env
                   (format_opt (py_or (args_project_id all_flags) (configured_env ''GOOGLE_CLOUD_PROJECT'')))
                   (args_location all_flags)
                   (format_opt (py_or (args_bucket all_flags) (configured_env ''GOOGLE_CLOUD_STORAGE_BUCKET'')))
                   (args_display_name all_flags)"
  define t where "t = test_agent_engine quiet_world
                   (format_opt (args_resource_id quicktest_and_delete)) default_test_query"
  have r: "list_ex is_create_request (fst r)" "snd r = Inr (w_resource_name quiet_world)"
    unfolding r_def
    by (rule create_agent_engine_issues_request [OF world(1,2,3,4)], rule created)
  have t: "QueryRequest sample_handle default_test_query \<in> set (fst t)" "snd t = Inr True"
    unfolding t_def by (simp_all add: flags query_issued_iff len world tested)
  have main_create_run: "main all_flags configured_env quiet_world =
        (configuration_lines all_flags configured_env @ fst r @
             (case snd r of
                Inr resource_id \<Rightarrow>
                  [Print ([CHR 0x0A] @ party_popper @ '' Deployment successful!''),
                   Print (clipboard @ '' Resource ID: '' @ resource_id),
                   Print ([CHR 0x0A] @ ''To test the agent, run:''),
                   Print (''python deployment/deploy.py --quicktest --resource_id='' @ resource_id)]
              | Inl e \<Rightarrow> [Print (cross_mark @ '' Error creating agent: '' @ exn_str e)]),
             if isl (snd r) then Exit 1 else Exit 0)"
    using create_run flags cfg unfolding r_def Let_def by blast
  have main_test_run: "main quicktest_and_delete configured_env quiet_world =
        (configuration_lines quicktest_and_delete configured_env @ fst t,
             case snd t of Inl e \<Rightarrow> Uncaught e
                         | Inr success \<Rightarrow> if \<not> success then Exit 1 else Exit 0)"
    using test_run flags(4,5,6) cfg given unfolding t_def Let_def by blast
  have "list_ex is_create_request (fst (main all_flags configured_env quiet_world))"
    and "snd (main all_flags configured_env quiet_world) = Exit 0"
    using r by (simp_all add: main_create_run)
  moreover have "QueryRequest sample_handle default_test_query
        \<in> set (fst (main quicktest_and_delete configured_env quiet_world))"
    and "snd (main quicktest_and_delete configured_env quiet_world) = Exit 0"
    using t by (simp_all add: main_test_run)
  moreover have "QueryRequest sample_handle default_test_query
        \<notin> set (fst (main all_flags configured_env quiet_world))"
    and "DeleteRequest sample_handle \<notin> set (fst (main all_flags configured_env quiet_world))"
    using create_run flags no_query no_deletion by blast+
  moreover have "DeleteRequest sample_handle
        \<notin> set (fst (main quicktest_and_delete configured_env quiet_world))"
    using test_run flags no_deletion' by blast
  moreover have "main all_flags configured_env quiet_world
       = main (all_flags \<lparr> args_quicktest := False, args_delete := False \<rparr>) configured_env quiet_world"
    and "main quicktest_and_delete configured_env quiet_world
       = main (quicktest_and_delete \<lparr> args_delete := False \<rparr>) configured_env quiet_world"
    using create_run test_run flags by blast+
  ultimately show ?thesis
    using flags(1-6) cfg given by simp
qed


end
